theory Spec2Isabelle
  imports Main "HOL-Library.AList" "HOL-Library.Option_ord" "HOL-Library.Product_Lexorder"
begin

section \<open>Python values\<close>

text \<open>
  The pipeline reads its records from JSON files, so a field value is a JSON scalar:
  \<open>null\<close>, a boolean, an integer or a string. A Python \<open>str\<close> is modelled as a
  \<open>string\<close> whose characters are the code points below 256. Floats and nested
  containers as field values are outside the model. An element of the base-issue list
  or a value stored in a lookup table is either a dictionary (\<open>PDict\<close>) or a scalar
  (\<open>PVal\<close>), on which \<open>.get\<close> raises \<open>AttributeError\<close>.
\<close>

datatype pyval = PNone | PBool bool | PInt int | PStr string

type_synonym pydict = "(string \<times> pyval) list"

datatype pyobj = PDict pydict | PVal pyval

datatype py_error =
    AttributeError string string
  | DatabaseWriterError string
  | ValueError string

fun digits10 :: "nat \<Rightarrow> string" where
  "digits10 n =
     (if n < 10 then [''0123456789'' ! n]
      else digits10 (n div 10) @ [''0123456789'' ! (n mod 10)])"

declare digits10.simps [simp del]

definition str_int :: "int \<Rightarrow> string" where
  "str_int i = (if i < 0 then ''-'' @ digits10 (nat (- i)) else digits10 (nat i))"

text \<open>\<open>str(v)\<close>, as an f-string formats a value.\<close>

fun py_str :: "pyval \<Rightarrow> string" where
  "py_str PNone = ''None''"
| "py_str (PBool b) = (if b then ''True'' else ''False'')"
| "py_str (PInt i) = str_int i"
| "py_str (PStr s) = s"


fun type_name :: "pyval \<Rightarrow> string" where
  "type_name PNone = ''NoneType''"
| "type_name (PBool b) = ''bool''"
| "type_name (PInt i) = ''int''"
| "type_name (PStr s) = ''str''"

text \<open>\<open>str(e)\<close> of an exception.\<close>

fun error_str :: "py_error \<Rightarrow> string" where
  "error_str (AttributeError ty attr) =
     [CHR 0x27] @ ty @ [CHR 0x27] @ '' object has no attribute '' @ [CHR 0x27] @ attr @ [CHR 0x27]"
| "error_str (DatabaseWriterError msg) = msg"
| "error_str (ValueError msg) = msg"

text \<open>\<open>d.get(k, default)\<close> on a dictionary.\<close>

definition dict_get :: "pydict \<Rightarrow> string \<Rightarrow> pyval \<Rightarrow> pyval" where
  "dict_get d k dflt = (case map_of d k of None \<Rightarrow> dflt | Some v \<Rightarrow> v)"

text \<open>\<open>x.get(k, default)\<close> on any object: only a dictionary has the method.\<close>

fun obj_get :: "pyobj \<Rightarrow> string \<Rightarrow> pyval \<Rightarrow> py_error + pyval" where
  "obj_get (PDict d) k dflt = Inr (dict_get d k dflt)"
| "obj_get (PVal v) k dflt = Inl (AttributeError (type_name v) ''get'')"

text \<open>
  A dictionary display \<open>{k1: e1, k2: e2, ...}\<close>: the entries are evaluated from left
  to right and the first one that raises ends the evaluation.
\<close>

fun dict_display :: "(string \<times> (py_error + pyval)) list \<Rightarrow> py_error + pydict" where
  "dict_display [] = Inr []"
| "dict_display ((k, Inl e) # rest) = Inl e"
| "dict_display ((k, Inr v) # rest) =
     (case dict_display rest of Inl e \<Rightarrow> Inl e | Inr d \<Rightarrow> Inr ((k, v) # d))"

section \<open>Record reconciler: \<open>post_processing/merge.py\<close>\<close>


text \<open>
  The five lookup tables, named as the local variables of \<open>_create_lookups\<close>. A table
  maps a key string to the object stored under it.
\<close>

record lookups =
  descriptions_lookup :: "string \<rightharpoonup> pyobj"
  classifications_lookup :: "string \<rightharpoonup> pyobj"
  similar_issues_lookup :: "string \<rightharpoonup> pyobj"
  timeline_lookup :: "string \<rightharpoonup> pyobj"
  actions_lookup :: "string \<rightharpoonup> pyobj"

text \<open>The key of an entry, \<open>f"{project_id}_{issue_id}"\<close>.\<close>

definition entry_key :: "pydict \<Rightarrow> string" where
  "entry_key e =
     py_str (dict_get e ''projectId'' (PStr '''')) @ ''_'' @
     py_str (dict_get e ''issueId'' (PStr ''''))"



text \<open>\<open>tbl.get(issue_key, {})\<close>\<close>

definition lookup_get :: "(string \<rightharpoonup> pyobj) \<Rightarrow> string \<Rightarrow> pyobj" where
  "lookup_get tbl k = (case tbl k of None \<Rightarrow> PDict [] | Some x \<Rightarrow> x)"

definition combine_single_issue :: "pydict \<Rightarrow> lookups \<Rightarrow> py_error + pydict" where
  "combine_single_issue issue lk =
     (let project_id = dict_get issue ''projectId'' (PStr '''');
          issue_id = dict_get issue ''issueId'' (PStr '''');
          issue_key = py_str project_id @ ''_'' @ py_str issue_id;
          desc_data = lookup_get (descriptions_lookup lk) issue_key;
          cls_data = lookup_get (classifications_lookup lk) issue_key;
          sim_data = lookup_get (similar_issues_lookup lk) issue_key;
          timeline_data = lookup_get (timeline_lookup lk) issue_key;
          action_data = lookup_get (actions_lookup lk) issue_key
      in dict_display
        [(''Project ID'', Inr project_id),
         (''Issue ID'', Inr issue_id),
         (''Short Description'', obj_get desc_data ''shortDescription'' (PStr '''')),
         (''Long Description'', obj_get desc_data ''longDescription'' (PStr '''')),
         (''Project Issue class'', obj_get cls_data ''classification'' (PStr '''')),
         (''Similar Issue 1 Project ID'', obj_get sim_data ''similarIssue1ProjectId'' (PStr '''')),
         (''Similar Issue 1 Issue ID'', obj_get sim_data ''similarIssue1IssueId'' (PStr '''')),
         (''Similar Issue 1 Name'', obj_get sim_data ''similarIssue1Name'' (PStr '''')),
         (''Similar Issue 1 Start Date'', obj_get sim_data ''similarIssue1StartDate'' (PStr '''')),
         (''Similar Issue 1 Resolution Time'',
            obj_get sim_data ''similarIssue1ResolutionTime'' (PStr '''')),
         (''Similar Issue 2 Project ID'', obj_get sim_data ''similarIssue2ProjectId'' (PStr '''')),
         (''Similar Issue 2 Issue ID'', obj_get sim_data ''similarIssue2IssueId'' (PStr '''')),
         (''Similar Issue 2 Name'', obj_get sim_data ''similarIssue2Name'' (PStr '''')),
         (''Similar Issue 2 Start Date'', obj_get sim_data ''similarIssue2StartDate'' (PStr '''')),
         (''Similar Issue 2 Resolution Time'',
            obj_get sim_data ''similarIssue2ResolutionTime'' (PStr '''')),
         (''Similar Issue 3 Project ID'', obj_get sim_data ''similarIssue3ProjectId'' (PStr '''')),
         (''Similar Issue 3 Issue ID'', obj_get sim_data ''similarIssue3IssueId'' (PStr '''')),
         (''Similar Issue 3 Name'', obj_get sim_data ''similarIssue3Name'' (PStr '''')),
         (''Similar Issue 3 Start Date'', obj_get sim_data ''similarIssue3StartDate'' (PStr '''')),
         (''Similar Issue 3 Resolution Time'',
            obj_get sim_data ''similarIssue3ResolutionTime'' (PStr '''')),
         (''Time AI Predicted Timeline'',
            obj_get timeline_data ''timeAiPredictedTimeline'' (PStr '''')),
         (''Issue Start Date'',
            obj_get timeline_data ''issueStartDate''
              (dict_get issue ''issueCreationDate'' (PStr ''''))),
         (''Predicted End Date'', obj_get timeline_data ''predictedEndDate'' (PStr '''')),
         (''Timeline Resolution Rationale'',
            obj_get timeline_data ''timelineReasoning'' (PStr '''')),
         (''Immediate next steps'', obj_get action_data ''immediateNextSteps'' (PStr '''')),
         (''Learn from similar Issues'',
            obj_get action_data ''learnFromSimilarIssues'' (PStr '''')),
         (''Strategic Best practice'',
            obj_get action_data ''strategicBestPractice'' (PStr ''''))])"

text \<open>
  The record that the \<open>except\<close> branch of \<open>_process_all_issues\<close> appends for issue
  number \<open>i\<close> (counted from 1) when combining it raised \<open>e\<close>.
\<close>

definition error_result :: "nat \<Rightarrow> pydict \<Rightarrow> py_error \<Rightarrow> pydict" where
  "error_result i issue e =
     [(''Project ID'', dict_get issue ''projectId'' (PStr ''Unknown'')),
      (''Issue ID'', dict_get issue ''issueId'' (PStr (''Issue_'' @ digits10 i))),
      (''Short Description'', PStr (''Processing error: '' @ error_str e)),
      (''Long Description'', PStr ''Please contact support for assistance''),
      (''Project Issue class'', PStr ''Error''),
      (''Similar Issue 1 Project ID'', PStr ''''),
      (''Similar Issue 1 Issue ID'', PStr ''''),
      (''Similar Issue 1 Name'', PStr ''''),
      (''Similar Issue 1 Start Date'', PStr ''''),
      (''Similar Issue 1 Resolution Time'', PStr ''''),
      (''Similar Issue 2 Project ID'', PStr ''''),
      (''Similar Issue 2 Issue ID'', PStr ''''),
      (''Similar Issue 2 Name'', PStr ''''),
      (''Similar Issue 2 Start Date'', PStr ''''),
      (''Similar Issue 2 Resolution Time'', PStr ''''),
      (''Similar Issue 3 Project ID'', PStr ''''),
      (''Similar Issue 3 Issue ID'', PStr ''''),
      (''Similar Issue 3 Name'', PStr ''''),
      (''Similar Issue 3 Start Date'', PStr ''''),
      (''Similar Issue 3 Resolution Time'', PStr ''''),
      (''Time AI Predicted Timeline'', PStr ''''),
      (''Issue Start Date'', dict_get issue ''issueCreationDate'' (PStr '''')),
      (''Predicted End Date'', PStr ''''),
      (''Timeline Resolution Rationale'', PStr ''Processing error occurred''),
      (''Immediate next steps'', PStr ''Contact support for assistance''),
      (''Learn from similar Issues'', PStr ''Review issue data and retry''),
      (''Strategic Best practice'', PStr ''Check system logs and retry processing'')]"

text \<open>
  The loop of \<open>_process_all_issues\<close> over \<open>enumerate(all_issues, 1)\<close>, with its three
  local variables as the state. Logging has no effect on the result and is left out.
  For an element that is not a dictionary, \<open>issue.get\<close> raises in the first statement
  of \<open>_combine_single_issue\<close>, and raises again in the \<open>except\<close> branch, whose first
  expression is \<open>issue.get('projectId', 'Unknown')\<close>: that second exception leaves the
  function.
\<close>

record process_state =
  final_results :: "pydict list"
  successful_count :: nat
  error_count :: nat

fun process_loop ::
  "lookups \<Rightarrow> nat \<Rightarrow> pyobj list \<Rightarrow> process_state \<Rightarrow> py_error + process_state" where
  "process_loop lk i [] st = Inr st"
| "process_loop lk i (PVal v # rest) st = Inl (AttributeError (type_name v) ''get'')"
| "process_loop lk i (PDict issue # rest) st =
     (case combine_single_issue issue lk of
        Inr combined_result \<Rightarrow>
          process_loop lk (i + 1) rest
            (st\<lparr> final_results := final_results st @ [combined_result],
                 successful_count := successful_count st + 1 \<rparr>)
      | Inl e \<Rightarrow>
          process_loop lk (i + 1) rest
            (st\<lparr> error_count := error_count st + 1,
                 final_results := final_results st @ [error_result i issue e] \<rparr>))"

definition process_all_issues :: "pyobj list \<Rightarrow> lookups \<Rightarrow> py_error + pydict list" where
  "process_all_issues issues lk =
     (case process_loop lk 1 issues
             \<lparr> final_results = [], successful_count = 0, error_count = 0 \<rparr> of
        Inl e \<Rightarrow> Inl e
      | Inr st \<Rightarrow> Inr (final_results st))"




text \<open>The record that \<open>_process_all_issues\<close> emits for issue number \<open>i\<close>.\<close>

definition issue_result :: "lookups \<Rightarrow> nat \<Rightarrow> pydict \<Rightarrow> pydict" where
  "issue_result lk i issue =
     (case combine_single_issue issue lk of
        Inr combined_result \<Rightarrow> combined_result
      | Inl e \<Rightarrow> error_result i issue e)"

section \<open>Batch upsert writer: \<open>database_writer/database_writer.py\<close>\<close>

subsection \<open>Field preparation\<close>

text \<open>
  \<open>str.strip()\<close> removes the white space at both ends; these are the white-space code
  points below 256.
\<close>

definition is_space :: "char \<Rightarrow> bool" where
  "is_space c = (of_char c \<in> set [9, 10, 11, 12, 13, 28, 29, 30, 31, 32, 133, 160 :: nat])"

definition strip :: "string \<Rightarrow> string" where
  "strip s = rev (dropWhile is_space (rev (dropWhile is_space s)))"

text \<open>
  A value bound to a column is a string or \<open>None\<close> (SQL \<open>NULL\<close>); a database record
  is the dictionary from column names to such values, in insertion order.
\<close>

type_synonym db_record = "(string \<times> string option) list"

definition field_mapping :: "(string \<times> string) list" where
  "field_mapping =
     [(''Project ID'', ''project_id''),
      (''Issue ID'', ''issue_id''),
      (''Short Description'', ''short_description''),
      (''Long Description'', ''long_description''),
      (''Project Issue class'', ''project_issue_class''),
      (''Similar Issue 1 Project ID'', ''similar_issue_1_project_id''),
      (''Similar Issue 1 Issue ID'', ''similar_issue_1_issue_id''),
      (''Similar Issue 1 Name'', ''similar_issue_1_name''),
      (''Similar Issue 1 Start Date'', ''similar_issue_1_start_date''),
      (''Similar Issue 1 Resolution Time'', ''similar_issue_1_resolution_time''),
      (''Similar Issue 2 Project ID'', ''similar_issue_2_project_id''),
      (''Similar Issue 2 Issue ID'', ''similar_issue_2_issue_id''),
      (''Similar Issue 2 Name'', ''similar_issue_2_name''),
      (''Similar Issue 2 Start Date'', ''similar_issue_2_start_date''),
      (''Similar Issue 2 Resolution Time'', ''similar_issue_2_resolution_time''),
      (''Similar Issue 3 Project ID'', ''similar_issue_3_project_id''),
      (''Similar Issue 3 Issue ID'', ''similar_issue_3_issue_id''),
      (''Similar Issue 3 Name'', ''similar_issue_3_name''),
      (''Similar Issue 3 Start Date'', ''similar_issue_3_start_date''),
      (''Similar Issue 3 Resolution Time'', ''similar_issue_3_resolution_time''),
      (''Time AI Predicted Timeline'', ''time_ai_predicted_timeline''),
      (''Issue Start Date'', ''issue_start_date''),
      (''Predicted End Date'', ''predicted_end_date''),
      (''Timeline Resolution Rationale'', ''timeline_resolution_rationale''),
      (''Immediate next steps'', ''immediate_next_steps''),
      (''Learn from similar Issues'', ''learn_from_similar_issues''),
      (''Strategic Best practice'', ''strategic_best_practice'')]"

text \<open>
  The value of one field before its column's formatting: \<open>record.get(field, '')\<close>,
  with \<open>None\<close> read as the empty string and any other non-string converted by
  \<open>str\<close>, then stripped.
\<close>

definition field_value :: "pydict \<Rightarrow> string \<Rightarrow> string" where
  "field_value record original_field =
     strip (case dict_get record original_field (PStr '''') of
              PNone \<Rightarrow> ''''
            | PStr s \<Rightarrow> s
            | v \<Rightarrow> py_str v)"

text \<open>The \<open>if\<close>/\<open>elif\<close> chain that formats the value of one column.\<close>

definition format_field :: "string \<Rightarrow> string \<Rightarrow> py_error + string option" where
  "format_field db_field v =
     (if db_field \<in> set [''project_id'', ''issue_id''] then
        (if v = [] then
           Inl (DatabaseWriterError (''Required field '' @ db_field @ '' is empty''))
         else Inr (Some (take 100 v)))
      else if db_field = ''project_issue_class'' then
        Inr (if v \<noteq> [] then Some (take 300 v) else None)
      else if db_field \<in> set
          [''similar_issue_1_project_id'', ''similar_issue_2_project_id'',
           ''similar_issue_3_project_id'', ''similar_issue_1_issue_id'',
           ''similar_issue_2_issue_id'', ''similar_issue_3_issue_id''] then
        Inr (if v \<noteq> [] then Some (take 100 v) else None)
      else if db_field \<in> set
          [''similar_issue_1_start_date'', ''similar_issue_2_start_date'',
           ''similar_issue_3_start_date'', ''similar_issue_1_resolution_time'',
           ''similar_issue_2_resolution_time'', ''similar_issue_3_resolution_time'',
           ''time_ai_predicted_timeline'', ''issue_start_date'', ''predicted_end_date''] then
        Inr (if v \<noteq> [] then Some (take 50 v) else None)
      else if v = [] then Inr None
      else Inr (Some v))"

text \<open>
  The loop over \<open>field_mapping.items()\<close>; \<open>db_record[db_field] = value\<close> is
  \<open>AList.update\<close>. The first field that raises ends the preparation.
\<close>

fun prepare_fields ::
  "pydict \<Rightarrow> (string \<times> string) list \<Rightarrow> db_record \<Rightarrow> py_error + db_record" where
  "prepare_fields record [] db_record = Inr db_record"
| "prepare_fields record ((original_field, db_field) # rest) db_record =
     (case format_field db_field (field_value record original_field) of
        Inl e \<Rightarrow> Inl e
      | Inr v \<Rightarrow> prepare_fields record rest (AList.update db_field v db_record))"

definition prepare_record_for_db :: "pydict \<Rightarrow> py_error + db_record" where
  "prepare_record_for_db record =
     (case prepare_fields record field_mapping [] of
        Inl e \<Rightarrow> Inl e
      | Inr db_record \<Rightarrow>
          Inr (AList.update ''processing_status'' (Some ''completed'')
                 (AList.update ''ml_pipeline_version'' (Some ''1.0.0'') db_record)))"

subsection \<open>Inserting a batch\<close>

definition field_order :: "string list" where
  "field_order =
     [''project_id'', ''issue_id'', ''short_description'', ''long_description'',
      ''project_issue_class'',
      ''similar_issue_1_project_id'', ''similar_issue_1_issue_id'', ''similar_issue_1_name'',
      ''similar_issue_1_start_date'', ''similar_issue_1_resolution_time'',
      ''similar_issue_2_project_id'', ''similar_issue_2_issue_id'', ''similar_issue_2_name'',
      ''similar_issue_2_start_date'', ''similar_issue_2_resolution_time'',
      ''similar_issue_3_project_id'', ''similar_issue_3_issue_id'', ''similar_issue_3_name'',
      ''similar_issue_3_start_date'', ''similar_issue_3_resolution_time'',
      ''time_ai_predicted_timeline'', ''issue_start_date'', ''predicted_end_date'',
      ''timeline_resolution_rationale'', ''immediate_next_steps'',
      ''learn_from_similar_issues'', ''strategic_best_practice'', ''ml_pipeline_version'',
      ''processing_status'']"

type_synonym db_tuple = "string option list"

text \<open>\<open>record.get(field)\<close> on a database record: \<open>None\<close> for a missing column.\<close>

definition db_get :: "db_record \<Rightarrow> string \<Rightarrow> string option" where
  "db_get record field = (case map_of record field of None \<Rightarrow> None | Some v \<Rightarrow> v)"

definition data_tuple :: "db_record \<Rightarrow> db_tuple" where
  "data_tuple record = map (db_get record) field_order"

text \<open>
  The database is a parameter. Given the batches submitted before (oldest first) and the
  data tuples of the present statement, it answers what the \<open>try\<close> block of
  \<open>_insert_batch\<close> meets: \<open>Inl msg\<close> when connecting, \<open>executemany\<close>, \<open>commit\<close> or
  \<open>close\<close> raises an exception with text \<open>msg\<close>, and \<open>Inr n\<close> when all succeed and
  \<open>cursor.rowcount\<close> is \<open>n\<close>. \<open>_insert_batch\<close> returns its result together with the
  extended log of submitted batches.
\<close>

type_synonym engine = "db_tuple list list \<Rightarrow> db_tuple list \<Rightarrow> string + nat"

definition insert_batch ::
  "engine \<Rightarrow> db_tuple list list \<Rightarrow> db_record list \<Rightarrow> (py_error + nat) \<times> db_tuple list list" where
  "insert_batch db sent records =
     (if records = [] then (Inr 0, sent)
      else
        let data_tuples = map data_tuple records in
        case db sent data_tuples of
          Inl msg \<Rightarrow>
            (Inl (DatabaseWriterError (''Failed to insert batch: '' @ msg)),
             sent @ [data_tuples])
        | Inr affected_rows \<Rightarrow> (Inr (length data_tuples), sent @ [data_tuples]))"

subsection \<open>Writing all records in batches\<close>

text \<open>
  The local variables of \<open>_write_data_to_db\<close>, which are also the statistics it
  returns, and the log of the batches submitted to the database.
\<close>

record write_state =
  total_records :: nat
  total_processed :: nat
  total_errors :: nat
  batch_count :: nat
  submitted :: "db_tuple list list"

text \<open>The inner loop: prepare each record of the batch, counting the ones that raise.\<close>

fun prepare_batch :: "pydict list \<Rightarrow> db_record list \<Rightarrow> nat \<Rightarrow> db_record list \<times> nat" where
  "prepare_batch [] db_batch errors = (db_batch, errors)"
| "prepare_batch (record # rest) db_batch errors =
     (case prepare_record_for_db record of
        Inr db_record \<Rightarrow> prepare_batch rest (db_batch @ [db_record]) errors
      | Inl e \<Rightarrow> prepare_batch rest db_batch (errors + 1))"

text \<open>The body of the outer loop for one batch, with its \<open>try\<close>/\<open>except\<close>.\<close>

definition process_batch :: "engine \<Rightarrow> pydict list \<Rightarrow> write_state \<Rightarrow> write_state" where
  "process_batch db batch st =
     (let st1 = st\<lparr> batch_count := batch_count st + 1 \<rparr>;
          (db_batch, errors) = prepare_batch batch [] (total_errors st1);
          st2 = st1\<lparr> total_errors := errors \<rparr>
      in if db_batch \<noteq> [] then
           (case insert_batch db (submitted st2) db_batch of
              (Inr processed, sent) \<Rightarrow>
                st2\<lparr> total_processed := total_processed st2 + processed, submitted := sent \<rparr>
            | (Inl e, sent) \<Rightarrow>
                st2\<lparr> total_errors := total_errors st2 + length batch, submitted := sent \<rparr>)
         else st2)"

text \<open>\<open>for i in range(0, len(records), batch_size)\<close> with a positive step.\<close>

function write_loop ::
  "engine \<Rightarrow> nat \<Rightarrow> pydict list \<Rightarrow> nat \<Rightarrow> write_state \<Rightarrow> write_state" where
  "write_loop db batch_size records i st =
     (if batch_size = 0 \<or> length records \<le> i then st
      else write_loop db batch_size records (i + batch_size)
             (process_batch db (take batch_size (drop i records)) st))"
  by pat_completeness auto
termination
  by (relation "measure (\<lambda>(db, batch_size, records, i, st). length records - i)") auto

declare write_loop.simps [simp del]

text \<open>
  \<open>_write_data_to_db\<close>. The batch size is read from the configuration: \<open>range\<close>
  raises \<open>ValueError\<close> for a step of zero and is empty for a negative step.
\<close>

definition write_data_to_db :: "engine \<Rightarrow> int \<Rightarrow> pydict list \<Rightarrow> py_error + write_state" where
  "write_data_to_db db batch_size records =
     (let st = \<lparr> total_records = length records, total_processed = 0, total_errors = 0,
                 batch_count = 0, submitted = [] \<rparr>
      in if batch_size = 0 then Inl (ValueError ''range() arg 3 must not be zero'')
         else if batch_size < 0 then Inr st
         else Inr (write_loop db (nat batch_size) records 0 st))"

text \<open>
  For the statements about the writer: the records of a list that field preparation
  accepts, prepared, in order; how many it rejects; and the batches that
  \<open>range(0, len(records), batch_size)\<close> cuts.
\<close>

definition prepared_of :: "pydict list \<Rightarrow> db_record list" where
  "prepared_of records =
     concat (map (\<lambda>r. case prepare_record_for_db r of Inr d \<Rightarrow> [d] | Inl e \<Rightarrow> []) records)"

definition rejects :: "pydict list \<Rightarrow> nat" where
  "rejects records = length (filter (\<lambda>r. isl (prepare_record_for_db r)) records)"

fun chunks :: "nat \<Rightarrow> 'a list \<Rightarrow> 'a list list" where
  "chunks n xs = (if n = 0 \<or> xs = [] then [] else take n xs # chunks n (drop n xs))"

declare chunks.simps [simp del]

text \<open>
  The two ways a column that may be \<open>NULL\<close> is formatted: \<open>value[:n] if value else None\<close>
  for the width-limited columns, and \<open>None\<close> for the empty string otherwise.
\<close>

definition nullable :: "nat \<Rightarrow> string \<Rightarrow> string option" where
  "nullable n v = (if v \<noteq> [] then Some (take n v) else None)"

definition text_or_null :: "string \<Rightarrow> string option" where
  "text_or_null v = (if v = [] then None else Some v)"

text \<open>
  A record has its required fields when neither \<open>Project ID\<close> nor \<open>Issue ID\<close>
  is empty after stripping. The business key of a record is the pair of its two key
  columns as they are bound; the key of a data tuple is its first two components.
\<close>

definition has_required_fields :: "pydict \<Rightarrow> bool" where
  "has_required_fields r =
     (field_value r ''Project ID'' \<noteq> [] \<and> field_value r ''Issue ID'' \<noteq> [])"

definition record_key :: "pydict \<Rightarrow> string option \<times> string option" where
  "record_key r =
     (Some (take 100 (field_value r ''Project ID'')), Some (take 100 (field_value r ''Issue ID'')))"

definition tuple_key :: "db_tuple \<Rightarrow> string option \<times> string option" where
  "tuple_key t = (t ! 0, t ! 1)"

section \<open>Connection manager: \<open>MySQLConnectionManager\<close>\<close>

text \<open>
  The configuration handed to \<open>__init__\<close>: each key may be absent, and
  \<open>connection_params\<close> is itself a dictionary of scalars.
\<close>

record connection_config =
  cfg_host :: "pyval option"
  cfg_port :: "pyval option"
  cfg_database :: "pyval option"
  cfg_username :: "pyval option"
  cfg_password :: "pyval option"
  cfg_connection_params :: "(string \<rightharpoonup> pyval) option"

record connection_manager =
  host :: pyval
  port :: pyval
  database :: pyval
  username :: pyval
  password :: pyval
  connection_params :: "string \<rightharpoonup> pyval"

definition default_params :: "string \<rightharpoonup> pyval" where
  "default_params =
     map_of
       [(''charset'', PStr ''utf8mb4''),
        (''connect_timeout'', PInt 30),
        (''autocommit'', PBool True),
        (''use_unicode'', PBool True),
        (''sql_mode'',
           PStr ''STRICT_TRANS_TABLES,NO_ZERO_DATE,NO_ZERO_IN_DATE,ERROR_FOR_DIVISION_BY_ZERO'')]"

text \<open>\<open>config.get(key)\<close> and \<open>config.get(key, default)\<close> on the configuration.\<close>

definition config_get :: "pyval option \<Rightarrow> pyval \<Rightarrow> pyval" where
  "config_get entry dflt = (case entry of None \<Rightarrow> dflt | Some v \<Rightarrow> v)"

text \<open>
  \<open>MySQLConnectionManager.__init__\<close>: \<open>{**default_params, **filtered_params}\<close> is
  the map \<open>default_params ++ filtered_params\<close>.
\<close>

definition connection_manager_init :: "connection_config \<Rightarrow> connection_manager" where
  "connection_manager_init connection_config =
     (let supplied =
            (case cfg_connection_params connection_config of
               None \<Rightarrow> Map.empty
             | Some p \<Rightarrow> p);
          filtered_params = (\<lambda>k. if k \<noteq> ''sslmode'' then supplied k else None)
      in \<lparr> host = config_get (cfg_host connection_config) PNone,
           port = config_get (cfg_port connection_config) (PInt 3306),
           database = config_get (cfg_database connection_config) PNone,
           username = config_get (cfg_username connection_config) PNone,
           password = config_get (cfg_password connection_config) PNone,
           connection_params = default_params ++ filtered_params \<rparr>)"

section \<open>Endpoint discovery: \<open>database_writer/aws_data_discovery.py\<close>\<close>

text \<open>
  One element of \<open>response['DBInstances']\<close>, with every key that the code reads. Each
  key may be absent: a missing key that the code subscripts raises \<open>KeyError\<close>, a
  missing key read with \<open>.get\<close> gives \<open>None\<close> or the default. \<open>Endpoint\<close> holds the
  address and the port, \<open>VpcSecurityGroups\<close> the \<open>VpcSecurityGroupId\<close> of each group,
  \<open>DBSubnetGroupName\<close> the name inside \<open>DBSubnetGroup\<close>, and \<open>InstanceCreateTime\<close>
  the ISO text of the creation time.
\<close>

record db_instance =
  DBInstanceIdentifier :: "string option"
  Engine :: "string option"
  Endpoint :: "(string option \<times> int option) option"
  DBInstanceStatus :: "string option"
  AvailabilityZone :: "string option"
  VpcSecurityGroups :: "string option list option"
  DBSubnetGroupName :: "string option"
  PubliclyAccessible :: "bool option"
  StorageEncrypted :: "bool option"
  MasterUsername :: "string option"
  AllocatedStorage :: "int option"
  DBInstanceClass :: "string option"
  InstanceCreateTime :: "string option"

record instance_info =
  instance_identifier :: string
  engine :: string
  endpoint_host :: string
  endpoint_port :: int
  status :: string
  availability_zone :: string
  vpc_security_groups :: "string list"
  db_subnet_group :: "string option"
  publicly_accessible :: bool
  storage_encrypted :: bool
  master_username :: "string option"
  allocated_storage :: "int option"
  db_instance_class :: "string option"
  creation_time :: string

text \<open>
  The discovery object: whether the two clients exist, what \<open>describe_db_instances\<close>
  returns (\<open>None\<close> when the call raises), the id of the running instance, and the
  availability zone that \<open>describe_instances\<close> reports for it (\<open>None\<close> when that call
  raises or returns no reservation).
\<close>

record discovery =
  rds_client :: bool
  ec2_client :: bool
  describe_db_instances :: "db_instance list option"
  instance_id :: "string option"
  ec2_availability_zone :: "string option"

text \<open>\<open>str.lower()\<close> on the code points below 256.\<close>

definition lower_char :: "char \<Rightarrow> char" where
  "lower_char c =
     (let n = (of_char c :: nat)
      in if (65 \<le> n \<and> n \<le> 90) \<or> (192 \<le> n \<and> n \<le> 222 \<and> n \<noteq> 215)
         then char_of (n + 32) else c)"

definition py_lower :: "string \<Rightarrow> string" where
  "py_lower s = map lower_char s"

text \<open>\<open>not self.instance_id\<close> is false for a non-empty string only.\<close>

definition has_instance_id :: "discovery \<Rightarrow> bool" where
  "has_instance_id self = (case instance_id self of None \<Rightarrow> False | Some i \<Rightarrow> i \<noteq> [])"

definition is_instance_accessible :: "discovery \<Rightarrow> instance_info \<Rightarrow> bool" where
  "is_instance_accessible self db_instance =
     (if publicly_accessible db_instance then True
      else if \<not> has_instance_id self then True
      else py_lower (status db_instance) = ''available'')"

text \<open>
  \<open>[sg['VpcSecurityGroupId'] for sg in ...]\<close>: \<open>None\<close> when a group lacks its id.
\<close>

fun group_ids :: "string option list \<Rightarrow> string list option" where
  "group_ids [] = Some []"
| "group_ids (None # rest) = None"
| "group_ids (Some g # rest) =
     (case group_ids rest of None \<Rightarrow> None | Some gs \<Rightarrow> Some (g # gs))"

text \<open>The dictionary built for a MySQL instance; \<open>None\<close> when a subscript raises.\<close>

definition instance_info_of :: "db_instance \<Rightarrow> instance_info option" where
  "instance_info_of db_instance =
     (case (DBInstanceIdentifier db_instance, Engine db_instance, Endpoint db_instance,
            DBInstanceStatus db_instance, AvailabilityZone db_instance,
            VpcSecurityGroups db_instance) of
        (Some ident, Some eng, Some (Some address, Some prt), Some st, Some az, Some groups) \<Rightarrow>
          (case group_ids groups of
             None \<Rightarrow> None
           | Some gs \<Rightarrow>
               Some \<lparr> instance_identifier = ident, engine = eng, endpoint_host = address,
                      endpoint_port = prt, status = st, availability_zone = az,
                      vpc_security_groups = gs,
                      db_subnet_group = DBSubnetGroupName db_instance,
                      publicly_accessible =
                        (case PubliclyAccessible db_instance of None \<Rightarrow> False | Some b \<Rightarrow> b),
                      storage_encrypted =
                        (case StorageEncrypted db_instance of None \<Rightarrow> False | Some b \<Rightarrow> b),
                      master_username = MasterUsername db_instance,
                      allocated_storage = AllocatedStorage db_instance,
                      db_instance_class = DBInstanceClass db_instance,
                      creation_time =
                        (case InstanceCreateTime db_instance of None \<Rightarrow> '''' | Some t \<Rightarrow> t) \<rparr>)
      | _ \<Rightarrow> None)"

text \<open>
  The loop of \<open>discover_mysql_instances\<close>; \<open>None\<close> when an exception leaves it.
\<close>

fun discover_loop ::
  "discovery \<Rightarrow> db_instance list \<Rightarrow> instance_info list \<Rightarrow> instance_info list option" where
  "discover_loop self [] mysql_instances = Some mysql_instances"
| "discover_loop self (db_instance # rest) mysql_instances =
     (case Engine db_instance of
        None \<Rightarrow> None
      | Some eng \<Rightarrow>
          if py_lower eng \<in> set [''mysql'', ''aurora-mysql''] then
            (case instance_info_of db_instance of
               None \<Rightarrow> None
             | Some info \<Rightarrow>
                 if is_instance_accessible self info
                 then discover_loop self rest (mysql_instances @ [info])
                 else discover_loop self rest mysql_instances)
          else discover_loop self rest mysql_instances)"

definition discover_mysql_instances :: "discovery \<Rightarrow> instance_info list" where
  "discover_mysql_instances self =
     (if \<not> rds_client self then []
      else case describe_db_instances self of
             None \<Rightarrow> []
           | Some instances \<Rightarrow>
               (case discover_loop self instances [] of
                  None \<Rightarrow> []
                | Some mysql_instances \<Rightarrow> mysql_instances))"

definition is_same_availability_zone :: "discovery \<Rightarrow> instance_info \<Rightarrow> bool" where
  "is_same_availability_zone self db_instance =
     (if \<not> has_instance_id self \<or> \<not> ec2_client self then False
      else case ec2_availability_zone self of
             None \<Rightarrow> False
           | Some ec2_az \<Rightarrow> availability_zone db_instance = ec2_az)"

text \<open>
  The ranking triple. Its third component is \<open>None\<close> for an instance without
  \<open>AllocatedStorage\<close>. Python compares tuples lexicographically.
\<close>

definition sort_key :: "discovery \<Rightarrow> instance_info \<Rightarrow> int \<times> int \<times> int option" where
  "sort_key self instance =
     (let status_score = (if status instance = ''available'' then 1 else 0);
          same_az_score = (if is_same_availability_zone self instance then 1 else 0);
          storage_score = allocated_storage instance
      in (status_score, same_az_score, storage_score))"

text \<open>
  Comparing two triples that agree on their first two components and hold \<open>None\<close> and
  an integer as the third raises \<open>TypeError\<close>. A comparison sort cannot tell the order
  of two such elements without comparing two such triples, so \<open>list.sort\<close> raises
  exactly when the list holds such a pair; the text of the exception depends on the
  order of the operands and is not modelled.
\<close>

datatype discovery_error = TypeError

definition storage_comparable :: "discovery \<Rightarrow> instance_info list \<Rightarrow> bool" where
  "storage_comparable self instances =
     list_all (\<lambda>i. list_all (\<lambda>j.
         fst (sort_key self i) = fst (sort_key self j) \<and>
         fst (snd (sort_key self i)) = fst (snd (sort_key self j)) \<longrightarrow>
         (allocated_storage i = None \<longleftrightarrow> allocated_storage j = None)) instances) instances"

text \<open>
  \<open>list.sort(key=f, reverse=True)\<close> is stable: it reverses the list, sorts it in
  ascending order keeping equal elements in their order, and reverses the result. Where
  no comparison raises, the order of \<open>None\<close> against an integer is never consulted.
\<close>

definition sort_reverse :: "('a \<Rightarrow> 'k::linorder) \<Rightarrow> 'a list \<Rightarrow> 'a list" where
  "sort_reverse f xs = rev (List.sort_key f (rev xs))"

definition get_recommended_instance :: "discovery \<Rightarrow> discovery_error + instance_info option" where
  "get_recommended_instance self =
     (let instances = discover_mysql_instances self
      in if instances = [] then Inr None
         else if \<not> storage_comparable self instances then Inl TypeError
         else case sort_reverse (sort_key self) instances of
                [] \<Rightarrow> Inr None
              | recommended # others \<Rightarrow> Inr (Some recommended))"



section \<open>Properties of the reconciler\<close>

subsection \<open>Fallback when no annotation matches\<close>

text \<open>
  C6. A base issue whose key is in none of the five lookup tables is combined without
  error into a record in which every field taken from an annotation is the empty string
  and \<open>Issue Start Date\<close> is the issue's own \<open>issueCreationDate\<close> (the empty string
  when the issue has none).
\<close>

theorem combine_single_issue_fallback:
  assumes "descriptions_lookup lk (entry_key issue) = None"
    and "classifications_lookup lk (entry_key issue) = None"
    and "similar_issues_lookup lk (entry_key issue) = None"
    and "timeline_lookup lk (entry_key issue) = None"
    and "actions_lookup lk (entry_key issue) = None"
  shows "combine_single_issue issue lk = Inr
     [(''Project ID'', dict_get issue ''projectId'' (PStr '''')),
      (''Issue ID'', dict_get issue ''issueId'' (PStr '''')),
      (''Short Description'', PStr ''''),
      (''Long Description'', PStr ''''),
      (''Project Issue class'', PStr ''''),
      (''Similar Issue 1 Project ID'', PStr ''''),
      (''Similar Issue 1 Issue ID'', PStr ''''),
      (''Similar Issue 1 Name'', PStr ''''),
      (''Similar Issue 1 Start Date'', PStr ''''),
      (''Similar Issue 1 Resolution Time'', PStr ''''),
      (''Similar Issue 2 Project ID'', PStr ''''),
      (''Similar Issue 2 Issue ID'', PStr ''''),
      (''Similar Issue 2 Name'', PStr ''''),
      (''Similar Issue 2 Start Date'', PStr ''''),
      (''Similar Issue 2 Resolution Time'', PStr ''''),
      (''Similar Issue 3 Project ID'', PStr ''''),
      (''Similar Issue 3 Issue ID'', PStr ''''),
      (''Similar Issue 3 Name'', PStr ''''),
      (''Similar Issue 3 Start Date'', PStr ''''),
      (''Similar Issue 3 Resolution Time'', PStr ''''),
      (''Time AI Predicted Timeline'', PStr ''''),
      (''Issue Start Date'', dict_get issue ''issueCreationDate'' (PStr '''')),
      (''Predicted End Date'', PStr ''''),
      (''Timeline Resolution Rationale'', PStr ''''),
      (''Immediate next steps'', PStr ''''),
      (''Learn from similar Issues'', PStr ''''),
      (''Strategic Best practice'', PStr '''')]"
proof -
  have key: "py_str (dict_get issue ''projectId'' (PStr '''')) @ ''_'' @
      py_str (dict_get issue ''issueId'' (PStr '''')) = entry_key issue"
    by (simp add: entry_key_def)
  have miss: "lookup_get (descriptions_lookup lk) (entry_key issue) = PDict []"
    "lookup_get (classifications_lookup lk) (entry_key issue) = PDict []"
    "lookup_get (similar_issues_lookup lk) (entry_key issue) = PDict []"
    "lookup_get (timeline_lookup lk) (entry_key issue) = PDict []"
    "lookup_get (actions_lookup lk) (entry_key issue) = PDict []"
    using assms by (simp_all add: lookup_get_def)
  show ?thesis
    unfolding combine_single_issue_def Let_def key miss
    by (simp add: dict_get_def)
qed

text \<open>
  An issue \<open>P1/I7\<close> against tables that only know \<open>P1/I8\<close>: the start date is the
  creation date of the issue.
\<close>

theorem combine_single_issue_fallback_witness:
  "combine_single_issue
     [(''projectId'', PStr ''P1''), (''issueId'', PStr ''I7''),
      (''issueCreationDate'', PStr ''2024-03-01'')]
     \<lparr> descriptions_lookup = [''P1_I8'' \<mapsto> PDict [(''shortDescription'', PStr ''leak'')]],
       classifications_lookup = [''P1_I8'' \<mapsto> PDict [(''classification'', PStr ''Civil'')]],
       similar_issues_lookup = Map.empty,
       timeline_lookup = [''P1_I8'' \<mapsto> PDict [(''issueStartDate'', PStr ''2024-01-01'')]],
       actions_lookup = Map.empty \<rparr>
   = Inr
     [(''Project ID'', PStr ''P1''),
      (''Issue ID'', PStr ''I7''),
      (''Short Description'', PStr ''''),
      (''Long Description'', PStr ''''),
      (''Project Issue class'', PStr ''''),
      (''Similar Issue 1 Project ID'', PStr ''''),
      (''Similar Issue 1 Issue ID'', PStr ''''),
      (''Similar Issue 1 Name'', PStr ''''),
      (''Similar Issue 1 Start Date'', PStr ''''),
      (''Similar Issue 1 Resolution Time'', PStr ''''),
      (''Similar Issue 2 Project ID'', PStr ''''),
      (''Similar Issue 2 Issue ID'', PStr ''''),
      (''Similar Issue 2 Name'', PStr ''''),
      (''Similar Issue 2 Start Date'', PStr ''''),
      (''Similar Issue 2 Resolution Time'', PStr ''''),
      (''Similar Issue 3 Project ID'', PStr ''''),
      (''Similar Issue 3 Issue ID'', PStr ''''),
      (''Similar Issue 3 Name'', PStr ''''),
      (''Similar Issue 3 Start Date'', PStr ''''),
      (''Similar Issue 3 Resolution Time'', PStr ''''),
      (''Time AI Predicted Timeline'', PStr ''''),
      (''Issue Start Date'', PStr ''2024-03-01''),
      (''Predicted End Date'', PStr ''''),
      (''Timeline Resolution Rationale'', PStr ''''),
      (''Immediate next steps'', PStr ''''),
      (''Learn from similar Issues'', PStr ''''),
      (''Strategic Best practice'', PStr '''')]"
  using combine_single_issue_fallback
    [of "\<lparr> descriptions_lookup = [''P1_I8'' \<mapsto> PDict [(''shortDescription'', PStr ''leak'')]],
       classifications_lookup = [''P1_I8'' \<mapsto> PDict [(''classification'', PStr ''Civil'')]],
       similar_issues_lookup = Map.empty,
       timeline_lookup = [''P1_I8'' \<mapsto> PDict [(''issueStartDate'', PStr ''2024-01-01'')]],
       actions_lookup = Map.empty \<rparr>"
      "[(''projectId'', PStr ''P1''), (''issueId'', PStr ''I7''),
        (''issueCreationDate'', PStr ''2024-03-01'')]"]
  by (simp add: entry_key_def dict_get_def)

subsection \<open>One record per issue\<close>

lemma process_loop_results:
  "\<exists>st'. process_loop lk i (map PDict issues) st = Inr st' \<and>
     final_results st' =
       final_results st @
       map (\<lambda>(k, issue). issue_result lk k issue) (List.enumerate i issues)"
proof (induction issues arbitrary: i st)
  case Nil
  show ?case by simp
next
  case (Cons issue rest)
  show ?case
  proof (cases "combine_single_issue issue lk")
    case (Inl e)
    from Cons.IH [of "Suc i"
        "st\<lparr> error_count := error_count st + 1,
            final_results := final_results st @ [error_result i issue e] \<rparr>"]
    show ?thesis using Inl by (simp add: issue_result_def)
  next
    case (Inr combined_result)
    from Cons.IH [of "Suc i"
        "st\<lparr> final_results := final_results st @ [combined_result],
            successful_count := successful_count st + 1 \<rparr>"]
    show ?thesis using Inr by (simp add: issue_result_def)
  qed
qed

lemma process_all_issues_enumerate:
  "process_all_issues (map PDict issues) lk =
     Inr (map (\<lambda>(k, issue). issue_result lk k issue) (List.enumerate 1 issues))"
  using process_loop_results
    [of lk 1 issues "\<lparr> final_results = [], successful_count = 0, error_count = 0 \<rparr>"]
  by (auto simp: process_all_issues_def)

lemma process_loop_non_dict:
  "PVal v \<in> set issues \<Longrightarrow> isl (process_loop lk i issues st)"
proof (induction issues arbitrary: i st)
  case Nil
  then show ?case by simp
next
  case (Cons x rest)
  show ?case
  proof (cases x)
    case (PVal w)
    then show ?thesis by simp
  next
    case (PDict issue)
    with Cons.prems have "PVal v \<in> set rest" by auto
    with Cons.IH PDict show ?thesis
      by (cases "combine_single_issue issue lk") simp_all
  qed
qed

text \<open>
  C1, as the code has it. For a base-issue list whose elements are all dictionaries,
  \<open>_process_all_issues\<close> returns exactly one record per base issue, in the order of the
  base issues, whatever the lookup tables hold: the record at position \<open>k\<close> is the
  combined record of issue \<open>k\<close> or, when combining it raised \<open>e\<close>, the error record
  built from that issue. The error record carries the issue's \<open>projectId\<close> and
  \<open>issueId\<close> (\<open>Unknown\<close> and \<open>Issue_i\<close> when the issue has none) and the description
  \<open>Processing error: \<close> followed by the text of \<open>e\<close>. A base-issue list with an
  element that is not a dictionary makes the function raise, and no list is returned.
\<close>

theorem process_all_issues_cardinality:
  "(\<exists>results. process_all_issues (map PDict issues) lk = Inr results \<and>
      length results = length issues \<and>
      (\<forall>k < length issues.
         results ! k =
           (case combine_single_issue (issues ! k) lk of
              Inr combined_result \<Rightarrow> combined_result
            | Inl e \<Rightarrow> error_result (k + 1) (issues ! k) e))) \<and>
   (\<forall>i issue e.
      map_of (error_result i issue e) ''Project ID'' =
        Some (dict_get issue ''projectId'' (PStr ''Unknown'')) \<and>
      map_of (error_result i issue e) ''Issue ID'' =
        Some (dict_get issue ''issueId'' (PStr (''Issue_'' @ digits10 i))) \<and>
      map_of (error_result i issue e) ''Short Description'' =
        Some (PStr (''Processing error: '' @ error_str e))) \<and>
   (\<forall>elements v. PVal v \<in> set elements \<longrightarrow> isl (process_all_issues elements lk))"
proof (intro conjI allI impI)
  let ?results = "map (\<lambda>(k, issue). issue_result lk k issue) (List.enumerate 1 issues)"
  have "length ?results = length issues" by simp
  moreover have "?results ! k =
      (case combine_single_issue (issues ! k) lk of
         Inr combined_result \<Rightarrow> combined_result
       | Inl e \<Rightarrow> error_result (k + 1) (issues ! k) e)" if "k < length issues" for k
    using that by (simp add: nth_enumerate_eq issue_result_def split: sum.split)
  ultimately show "\<exists>results. process_all_issues (map PDict issues) lk = Inr results \<and>
      length results = length issues \<and>
      (\<forall>k < length issues.
         results ! k =
           (case combine_single_issue (issues ! k) lk of
              Inr combined_result \<Rightarrow> combined_result
            | Inl e \<Rightarrow> error_result (k + 1) (issues ! k) e))"
    using process_all_issues_enumerate [of issues lk] by blast
next
  fix elements v assume "PVal v \<in> set elements"
  from process_loop_non_dict [OF this]
  show "isl (process_all_issues elements lk)"
    by (simp add: process_all_issues_def split: sum.split) (metis sum.disc(2))
qed (simp_all add: error_result_def)

text \<open>
  Two issues, the second of which finds the integer \<open>5\<close> stored under its key in the
  description table: two records come out, the second one the error record of issue 2.
\<close>

theorem process_all_issues_cardinality_witness:
  "(\<exists>results. process_all_issues
      (map PDict
     [[(''projectId'', PStr ''P1''), (''issueId'', PStr ''I1'')],
      [(''projectId'', PStr ''P1''), (''issueId'', PStr ''I2'')]])
     \<lparr> descriptions_lookup = [''P1_I2'' \<mapsto> PVal (PInt 5)],
       classifications_lookup = Map.empty,
       similar_issues_lookup = Map.empty,
       timeline_lookup = Map.empty,
       actions_lookup = Map.empty \<rparr> = Inr results \<and>
    length results = 2 \<and>
    map_of (results ! 1) ''Short Description'' =
      Some (PStr (''Processing error: '' @ [CHR 0x27] @ ''int'' @ [CHR 0x27] @
        '' object has no attribute '' @ [CHR 0x27] @ ''get'' @ [CHR 0x27])) \<and>
    map_of (results ! 1) ''Issue ID'' = Some (PStr ''I2'')) \<and>
   isl (process_all_issues [PVal (PStr ''not an issue'')] \<lparr> descriptions_lookup = [''P1_I2'' \<mapsto> PVal (PInt 5)],
       classifications_lookup = Map.empty,
       similar_issues_lookup = Map.empty,
       timeline_lookup = Map.empty,
       actions_lookup = Map.empty \<rparr>)"
proof -
  let ?issues = "[[(''projectId'', PStr ''P1''), (''issueId'', PStr ''I1'')],
      [(''projectId'', PStr ''P1''), (''issueId'', PStr ''I2'')]]"
  let ?lk = "\<lparr> descriptions_lookup = [''P1_I2'' \<mapsto> PVal (PInt 5)],
       classifications_lookup = Map.empty,
       similar_issues_lookup = Map.empty,
       timeline_lookup = Map.empty,
       actions_lookup = Map.empty \<rparr>"
  note T = process_all_issues_cardinality [of ?issues ?lk]
  from T obtain results where r: "process_all_issues (map PDict ?issues) ?lk = Inr results"
    "length results = length ?issues"
    "\<forall>k < length ?issues.
         results ! k =
           (case combine_single_issue (?issues ! k) ?lk of
              Inr combined_result \<Rightarrow> combined_result
            | Inl e \<Rightarrow> error_result (k + 1) (?issues ! k) e)"
    by (elim conjE exE)
  from r(3) [rule_format, of 1] have e: "results ! 1 =
      error_result 2 [(''projectId'', PStr ''P1''), (''issueId'', PStr ''I2'')]
        (AttributeError ''int'' ''get'')"
    by (simp add: combine_single_issue_def lookup_get_def dict_get_def numeral_2_eq_2)
  have a: "process_all_issues (map PDict ?issues) ?lk = Inr results \<and>
    length results = 2 \<and>
    map_of (results ! 1) ''Short Description'' =
      Some (PStr (''Processing error: '' @ [CHR 0x27] @ ''int'' @ [CHR 0x27] @
        '' object has no attribute '' @ [CHR 0x27] @ ''get'' @ [CHR 0x27])) \<and>
    map_of (results ! 1) ''Issue ID'' = Some (PStr ''I2'')"
    using r(1,2) e by (simp add: error_result_def dict_get_def)
  from T have "\<forall>elements v. PVal v \<in> set elements \<longrightarrow> isl (process_all_issues elements ?lk)"
    by (elim conjE)
  then have b: "isl (process_all_issues [PVal (PStr ''not an issue'')] ?lk)"
    by simp
  from a b show ?thesis by (intro conjI exI [of _ results]) simp_all
qed

text \<open>
  The claim as stated fails on a base-issue list that holds something else than a
  dictionary, here the number \<open>5\<close> after one issue: building its record raises, the
  \<open>except\<close> branch raises again, and the function returns no list.
\<close>

theorem process_all_issues_non_dict_counterexample:
  "process_all_issues
     [PDict [(''projectId'', PStr ''P1''), (''issueId'', PStr ''I1'')], PVal (PInt 5)]
     \<lparr> descriptions_lookup = Map.empty,
       classifications_lookup = Map.empty,
       similar_issues_lookup = Map.empty,
       timeline_lookup = Map.empty,
       actions_lookup = Map.empty \<rparr> = Inl (AttributeError ''int'' ''get'')"
  by (simp add: process_all_issues_def combine_single_issue_def lookup_get_def dict_get_def)

subsection \<open>Duplicate keys in an annotation dataset\<close>







section \<open>Properties of the writer\<close>

subsection \<open>Field preparation in closed form\<close>

lemma format_field_keys:
  "format_field ''project_id'' v =
     (if v = [] then Inl (DatabaseWriterError ''Required field project_id is empty'')
      else Inr (Some (take 100 v)))"
  "format_field ''issue_id'' v =
     (if v = [] then Inl (DatabaseWriterError ''Required field issue_id is empty'')
      else Inr (Some (take 100 v)))"
  by (simp_all add: format_field_def)

lemma format_field_varchar:
  "format_field ''project_issue_class'' v = Inr (nullable 300 v)"
  "format_field ''similar_issue_1_project_id'' v = Inr (nullable 100 v)"
  "format_field ''similar_issue_2_project_id'' v = Inr (nullable 100 v)"
  "format_field ''similar_issue_3_project_id'' v = Inr (nullable 100 v)"
  "format_field ''similar_issue_1_issue_id'' v = Inr (nullable 100 v)"
  "format_field ''similar_issue_2_issue_id'' v = Inr (nullable 100 v)"
  "format_field ''similar_issue_3_issue_id'' v = Inr (nullable 100 v)"
  "format_field ''similar_issue_1_start_date'' v = Inr (nullable 50 v)"
  "format_field ''similar_issue_2_start_date'' v = Inr (nullable 50 v)"
  "format_field ''similar_issue_3_start_date'' v = Inr (nullable 50 v)"
  "format_field ''similar_issue_1_resolution_time'' v = Inr (nullable 50 v)"
  "format_field ''similar_issue_2_resolution_time'' v = Inr (nullable 50 v)"
  "format_field ''similar_issue_3_resolution_time'' v = Inr (nullable 50 v)"
  "format_field ''time_ai_predicted_timeline'' v = Inr (nullable 50 v)"
  "format_field ''issue_start_date'' v = Inr (nullable 50 v)"
  "format_field ''predicted_end_date'' v = Inr (nullable 50 v)"
  by (simp_all add: format_field_def nullable_def)

lemma format_field_text:
  "format_field ''short_description'' v = Inr (text_or_null v)"
  "format_field ''long_description'' v = Inr (text_or_null v)"
  "format_field ''similar_issue_1_name'' v = Inr (text_or_null v)"
  "format_field ''similar_issue_2_name'' v = Inr (text_or_null v)"
  "format_field ''similar_issue_3_name'' v = Inr (text_or_null v)"
  "format_field ''timeline_resolution_rationale'' v = Inr (text_or_null v)"
  "format_field ''immediate_next_steps'' v = Inr (text_or_null v)"
  "format_field ''learn_from_similar_issues'' v = Inr (text_or_null v)"
  "format_field ''strategic_best_practice'' v = Inr (text_or_null v)"
  by (simp_all add: format_field_def text_or_null_def)


lemma prepare_record_for_db_explicit:
  "prepare_record_for_db r =
     (if field_value r ''Project ID'' = [] then
        Inl (DatabaseWriterError ''Required field project_id is empty'')
      else if field_value r ''Issue ID'' = [] then
        Inl (DatabaseWriterError ''Required field issue_id is empty'')
      else Inr
       [(''project_id'', Some (take 100 (field_value r ''Project ID''))),
        (''issue_id'', Some (take 100 (field_value r ''Issue ID''))),
        (''short_description'', text_or_null (field_value r ''Short Description'')),
        (''long_description'', text_or_null (field_value r ''Long Description'')),
        (''project_issue_class'', nullable 300 (field_value r ''Project Issue class'')),
        (''similar_issue_1_project_id'', nullable 100 (field_value r ''Similar Issue 1 Project ID'')),
        (''similar_issue_1_issue_id'', nullable 100 (field_value r ''Similar Issue 1 Issue ID'')),
        (''similar_issue_1_name'', text_or_null (field_value r ''Similar Issue 1 Name'')),
        (''similar_issue_1_start_date'', nullable 50 (field_value r ''Similar Issue 1 Start Date'')),
        (''similar_issue_1_resolution_time'', nullable 50 (field_value r ''Similar Issue 1 Resolution Time'')),
        (''similar_issue_2_project_id'', nullable 100 (field_value r ''Similar Issue 2 Project ID'')),
        (''similar_issue_2_issue_id'', nullable 100 (field_value r ''Similar Issue 2 Issue ID'')),
        (''similar_issue_2_name'', text_or_null (field_value r ''Similar Issue 2 Name'')),
        (''similar_issue_2_start_date'', nullable 50 (field_value r ''Similar Issue 2 Start Date'')),
        (''similar_issue_2_resolution_time'', nullable 50 (field_value r ''Similar Issue 2 Resolution Time'')),
        (''similar_issue_3_project_id'', nullable 100 (field_value r ''Similar Issue 3 Project ID'')),
        (''similar_issue_3_issue_id'', nullable 100 (field_value r ''Similar Issue 3 Issue ID'')),
        (''similar_issue_3_name'', text_or_null (field_value r ''Similar Issue 3 Name'')),
        (''similar_issue_3_start_date'', nullable 50 (field_value r ''Similar Issue 3 Start Date'')),
        (''similar_issue_3_resolution_time'', nullable 50 (field_value r ''Similar Issue 3 Resolution Time'')),
        (''time_ai_predicted_timeline'', nullable 50 (field_value r ''Time AI Predicted Timeline'')),
        (''issue_start_date'', nullable 50 (field_value r ''Issue Start Date'')),
        (''predicted_end_date'', nullable 50 (field_value r ''Predicted End Date'')),
        (''timeline_resolution_rationale'', text_or_null (field_value r ''Timeline Resolution Rationale'')),
        (''immediate_next_steps'', text_or_null (field_value r ''Immediate next steps'')),
        (''learn_from_similar_issues'', text_or_null (field_value r ''Learn from similar Issues'')),
        (''strategic_best_practice'', text_or_null (field_value r ''Strategic Best practice'')),
        (''ml_pipeline_version'', Some ''1.0.0''),
        (''processing_status'', Some ''completed'')])"
  by (simp add: prepare_record_for_db_def field_mapping_def format_field_keys
      format_field_varchar format_field_text)

subsection \<open>The loops in closed form\<close>

lemma prepared_of_simps:
  "prepared_of [] = []"
  "prepared_of (r # rs) =
     (case prepare_record_for_db r of Inr d \<Rightarrow> [d] | Inl e \<Rightarrow> []) @ prepared_of rs"
  "prepared_of (xs @ ys) = prepared_of xs @ prepared_of ys"
  by (simp_all add: prepared_of_def)

lemma rejects_simps:
  "rejects [] = 0"
  "rejects (r # rs) = (if isl (prepare_record_for_db r) then 1 else 0) + rejects rs"
  "rejects (xs @ ys) = rejects xs + rejects ys"
  by (simp_all add: rejects_def)

lemma prepare_batch_eq:
  "prepare_batch batch db_batch errors = (db_batch @ prepared_of batch, errors + rejects batch)"
proof (induction batch arbitrary: db_batch errors)
  case Nil
  show ?case by (simp add: prepared_of_simps rejects_simps)
next
  case (Cons r rest)
  show ?case
    by (cases "prepare_record_for_db r") (simp_all add: Cons.IH prepared_of_simps rejects_simps)
qed

lemma length_prepared_of: "length (prepared_of rs) + rejects rs = length rs"
  by (induction rs) (auto simp: prepared_of_simps rejects_simps split: sum.splits)

lemma process_batch_submitted:
  "submitted (process_batch db batch st) =
     submitted st @ (if prepared_of batch = [] then [] else [map data_tuple (prepared_of batch)])"
  by (simp add: process_batch_def prepare_batch_eq insert_batch_def Let_def split: sum.split)

lemma process_batch_batch_count:
  "batch_count (process_batch db batch st) = batch_count st + 1"
  by (simp add: process_batch_def prepare_batch_eq insert_batch_def Let_def split: sum.split)

lemma process_batch_total_records:
  "total_records (process_batch db batch st) = total_records st"
  by (simp add: process_batch_def prepare_batch_eq insert_batch_def Let_def split: sum.split)

lemma process_batch_total_errors:
  "total_errors st + rejects batch \<le> total_errors (process_batch db batch st)"
  by (simp add: process_batch_def prepare_batch_eq insert_batch_def Let_def split: sum.split)

lemma chunks_Nil [simp]: "chunks n [] = []"
  by (simp add: chunks.simps)

lemma chunks_step: "0 < n \<Longrightarrow> xs \<noteq> [] \<Longrightarrow> chunks n xs = take n xs # chunks n (drop n xs)"
  by (subst chunks.simps) simp

lemma ceil_step:
  fixes n l :: nat
  assumes "0 < n" "0 < l"
  shows "Suc ((l - n + n - 1) div n) = (l + n - 1) div n"
proof -
  have rhs: "(l + n - 1) div n = Suc ((l - 1) div n)"
  proof -
    have "(l + n - 1) div n = ((l - 1) + n) div n"
      by (rule arg_cong [where f = "\<lambda>x. x div n"]) (use assms in arith)
    also have "\<dots> = (l - 1) div n + 1"
      by (rule div_add_self2) (use assms in simp)
    finally show ?thesis by (simp only: Suc_eq_plus1)
  qed
  have lhs: "(l - n + n - 1) div n = (l - 1) div n"
  proof (cases "n \<le> l")
    case True
    show ?thesis
      by (rule arg_cong [where f = "\<lambda>x. x div n"]) (use True in arith)
  next
    case False
    then have a: "l - n + n - 1 < n" and b: "l - 1 < n" using assms by arith+
    show ?thesis by (simp only: div_less [OF a] div_less [OF b])
  qed
  show ?thesis using lhs rhs by simp
qed

lemma length_chunks: "0 < n \<Longrightarrow> length (chunks n xs) = (length xs + n - 1) div n"
proof (induction n xs rule: chunks.induct)
  case (1 n xs)
  show ?case
  proof (cases "xs = []")
    case True
    with 1 show ?thesis by simp
  next
    case False
    then have len: "0 < length xs" by simp
    have "length (chunks n xs) = Suc (length (chunks n (drop n xs)))"
      using "1.prems" False by (simp add: chunks_step)
    also have "\<dots> = Suc ((length xs - n + n - 1) div n)"
      using "1.IH" "1.prems" False by simp
    also have "\<dots> = (length xs + n - 1) div n"
      using ceil_step [OF "1.prems" len] .
    finally show ?thesis .
  qed
qed

lemma concat_chunks: "0 < n \<Longrightarrow> concat (chunks n xs) = xs"
proof (induction n xs rule: chunks.induct)
  case (1 n xs)
  then show ?case by (cases "xs = []") (simp_all add: chunks_step)
qed

lemma chunk_bounds: "c \<in> set (chunks n xs) \<Longrightarrow> c \<noteq> [] \<and> length c \<le> n"
proof (induction n xs rule: chunks.induct)
  case (1 n xs)
  show ?case
  proof (cases "n = 0 \<or> xs = []")
    case True
    with 1 show ?thesis by (auto simp: chunks.simps)
  next
    case False
    with "1.prems" have "c = take n xs \<or> c \<in> set (chunks n (drop n xs))"
      by (simp add: chunks_step)
    then show ?thesis using False "1.IH" by auto
  qed
qed

lemma write_loop_submitted:
  "0 < batch_size \<Longrightarrow>
   submitted (write_loop db batch_size records i st) =
     submitted st @
     map (map data_tuple)
       (filter (\<lambda>b. b \<noteq> []) (map prepared_of (chunks batch_size (drop i records))))"
proof (induction db batch_size records i st rule: write_loop.induct)
  case (1 db batch_size records i st)
  show ?case
  proof (cases "length records \<le> i")
    case True
    then show ?thesis by (simp add: write_loop.simps)
  next
    case False
    then have ne: "drop i records \<noteq> []" by simp
    have "write_loop db batch_size records i st =
        write_loop db batch_size records (i + batch_size)
          (process_batch db (take batch_size (drop i records)) st)"
      using False "1.prems" by (subst write_loop.simps) simp
    then show ?thesis
      using "1.IH" False "1.prems" ne
      by (simp add: chunks_step process_batch_submitted add.commute)
  qed
qed

lemma write_loop_batch_count:
  "0 < batch_size \<Longrightarrow>
   batch_count (write_loop db batch_size records i st) =
     batch_count st + length (chunks batch_size (drop i records))"
proof (induction db batch_size records i st rule: write_loop.induct)
  case (1 db batch_size records i st)
  show ?case
  proof (cases "length records \<le> i")
    case True
    then show ?thesis by (simp add: write_loop.simps)
  next
    case False
    then have ne: "drop i records \<noteq> []" by simp
    have "write_loop db batch_size records i st =
        write_loop db batch_size records (i + batch_size)
          (process_batch db (take batch_size (drop i records)) st)"
      using False "1.prems" by (subst write_loop.simps) simp
    then show ?thesis
      using "1.IH" False "1.prems" ne
      by (simp add: chunks_step process_batch_batch_count add.commute)
  qed
qed

lemma write_loop_total_errors:
  "0 < batch_size \<Longrightarrow>
   total_errors st + rejects (drop i records) \<le>
     total_errors (write_loop db batch_size records i st)"
proof (induction db batch_size records i st rule: write_loop.induct)
  case (1 db batch_size records i st)
  show ?case
  proof (cases "length records \<le> i")
    case True
    then show ?thesis by (simp add: write_loop.simps rejects_simps)
  next
    case False
    let ?b = "take batch_size (drop i records)"
    have eq: "write_loop db batch_size records i st =
        write_loop db batch_size records (i + batch_size) (process_batch db ?b st)"
      using False "1.prems" by (subst write_loop.simps) simp
    have split: "rejects (drop i records) = rejects ?b + rejects (drop (i + batch_size) records)"
      by (metis append_take_drop_id drop_drop rejects_simps(3) add.commute)
    have "total_errors (process_batch db ?b st) + rejects (drop (i + batch_size) records)
        \<le> total_errors (write_loop db batch_size records (i + batch_size) (process_batch db ?b st))"
      using "1.IH" False "1.prems" by simp
    then show ?thesis
      using process_batch_total_errors [of st ?b db] eq split by simp
  qed
qed

subsection \<open>Accepted and rejected records\<close>

lemma prepare_rejects_iff:
  "isl (prepare_record_for_db r) \<longleftrightarrow> \<not> has_required_fields r"
  by (simp add: prepare_record_for_db_explicit has_required_fields_def)

lemma prepare_accepts:
  "has_required_fields r \<Longrightarrow> \<exists>d. prepare_record_for_db r = Inr d \<and>
     db_get d ''project_id'' = fst (record_key r) \<and> db_get d ''issue_id'' = snd (record_key r)"
  by (simp add: prepare_record_for_db_explicit has_required_fields_def record_key_def db_get_def)

lemma tuple_key_data_tuple:
  "tuple_key (data_tuple d) = (db_get d ''project_id'', db_get d ''issue_id'')"
  by (simp add: tuple_key_def data_tuple_def field_order_def)

lemma prepared_of_filter:
  "prepared_of records = prepared_of (filter has_required_fields records)"
proof (induction records)
  case Nil
  show ?case by simp
next
  case (Cons r rs)
  show ?case
  proof (cases "has_required_fields r")
    case True
    then show ?thesis using Cons by (simp add: prepared_of_simps)
  next
    case False
    then have "isl (prepare_record_for_db r)" by (simp add: prepare_rejects_iff)
    then show ?thesis using False Cons by (auto simp: prepared_of_simps split: sum.splits)
  qed
qed

lemma length_prepared_of_filter:
  "length (prepared_of records) = length (filter has_required_fields records)"
proof (induction records)
  case Nil
  show ?case by (simp add: prepared_of_simps)
next
  case (Cons r rs)
  show ?case
    using Cons prepare_rejects_iff [of r]
    by (cases "prepare_record_for_db r") (simp_all add: prepared_of_simps)
qed

lemma rejects_filter:
  "rejects records = length (filter (\<lambda>r. \<not> has_required_fields r) records)"
  by (simp add: rejects_def prepare_rejects_iff)

lemma keys_prepared_of:
  "map (\<lambda>d. tuple_key (data_tuple d)) (prepared_of records) =
     map record_key (filter has_required_fields records)"
proof (induction records)
  case Nil
  show ?case by (simp add: prepared_of_simps)
next
  case (Cons r rs)
  show ?case
  proof (cases "has_required_fields r")
    case True
    from prepare_accepts [OF True] obtain d where
      "prepare_record_for_db r = Inr d" "db_get d ''project_id'' = fst (record_key r)"
      "db_get d ''issue_id'' = snd (record_key r)" by blast
    then show ?thesis using True Cons by (simp add: prepared_of_simps tuple_key_data_tuple)
  next
    case False
    then have "isl (prepare_record_for_db r)" by (simp add: prepare_rejects_iff)
    then show ?thesis using False Cons by (auto simp: prepared_of_simps split: sum.splits)
  qed
qed

lemma concat_filter_nonempty: "concat (filter (\<lambda>b. b \<noteq> []) xss) = concat xss"
  by (induction xss) auto

lemma prepared_of_concat: "prepared_of (concat xss) = concat (map prepared_of xss)"
  by (induction xss) (simp_all add: prepared_of_simps)

lemma write_data_to_db_closed:
  assumes "0 < batch_size"
  shows "\<exists>st. write_data_to_db db batch_size records = Inr st \<and>
     total_records st = length records \<and>
     batch_count st = length (chunks (nat batch_size) records) \<and>
     submitted st = map (map data_tuple)
       (filter (\<lambda>b. b \<noteq> []) (map prepared_of (chunks (nat batch_size) records))) \<and>
     rejects records \<le> total_errors st"
proof -
  have pos: "0 < nat batch_size" using assms by simp
  let ?st0 = "\<lparr> total_records = length records, total_processed = 0, total_errors = 0,
                 batch_count = 0, submitted = [] \<rparr>"
  have tr: "total_records (write_loop db n records i st) = total_records st" for n i st
  proof (induction db n records i st rule: write_loop.induct)
    case (1 db n records i st)
    show ?case
    proof (cases "n = 0 \<or> length records \<le> i")
      case True
      then show ?thesis by (simp add: write_loop.simps)
    next
      case False
      have "write_loop db n records i st =
          write_loop db n records (i + n) (process_batch db (take n (drop i records)) st)"
        using False by (subst write_loop.simps) simp
      then show ?thesis using "1.IH" False by (simp add: process_batch_total_records)
    qed
  qed
  have "write_data_to_db db batch_size records = Inr (write_loop db (nat batch_size) records 0 ?st0)"
    using assms by (simp add: write_data_to_db_def)
  moreover have "total_records (write_loop db (nat batch_size) records 0 ?st0) = length records"
    by (simp add: tr)
  moreover have "batch_count (write_loop db (nat batch_size) records 0 ?st0) =
      length (chunks (nat batch_size) records)"
    using write_loop_batch_count [OF pos, of db records 0 ?st0] by simp
  moreover have "submitted (write_loop db (nat batch_size) records 0 ?st0) =
      map (map data_tuple)
       (filter (\<lambda>b. b \<noteq> []) (map prepared_of (chunks (nat batch_size) records)))"
    using write_loop_submitted [OF pos, of db records 0 ?st0] by simp
  moreover have "rejects records \<le> total_errors (write_loop db (nat batch_size) records 0 ?st0)"
    using write_loop_total_errors [OF pos, of ?st0 0 records db] by simp
  ultimately show ?thesis by blast
qed

lemma concat_submitted:
  assumes "0 < n"
  shows "concat (map (map data_tuple) (filter (\<lambda>b. b \<noteq> []) (map prepared_of (chunks n records))))
    = map data_tuple (prepared_of records)"
proof -
  have "concat (map (map data_tuple) (filter (\<lambda>b. b \<noteq> []) (map prepared_of (chunks n records))))
      = map data_tuple (concat (filter (\<lambda>b. b \<noteq> []) (map prepared_of (chunks n records))))"
    by (simp add: map_concat)
  also have "\<dots> = map data_tuple (concat (map prepared_of (chunks n records)))"
    by (simp only: concat_filter_nonempty)
  also have "\<dots> = map data_tuple (prepared_of (concat (chunks n records)))"
    by (simp only: prepared_of_concat)
  also have "\<dots> = map data_tuple (prepared_of records)"
    using assms by (simp only: concat_chunks)
  finally show ?thesis .
qed

subsection \<open>Empty fields become \<open>NULL\<close>\<close>

lemma nullable_empty: "nullable n [] = None"
  by (simp add: nullable_def)

lemma text_or_null_empty: "text_or_null [] = None"
  by (simp add: text_or_null_def)

lemma nullable_nonempty: "0 < n \<Longrightarrow> nullable n v \<noteq> Some []"
  by (simp add: nullable_def)

lemma text_or_null_nonempty: "text_or_null v \<noteq> Some []"
  by (simp add: text_or_null_def)

text \<open>
  C10. In every record that \<open>_prepare_record_for_db\<close> accepts, each column other
  than the two key columns whose field strips to the empty string is bound to \<open>None\<close>
  (the width-limited columns like the text columns), no column at all is bound to the
  empty string, and the two metadata columns are \<open>ml_pipeline_version = '1.0.0'\<close> and
  \<open>processing_status = 'completed'\<close>.
\<close>

theorem prepare_record_null_coercion:
  assumes "prepare_record_for_db r = Inr d"
  shows "(\<forall>(original_field, db_field) \<in> set field_mapping.
           db_field \<notin> {''project_id'', ''issue_id''} \<longrightarrow>
           field_value r original_field = [] \<longrightarrow> map_of d db_field = Some None) \<and>
         (\<forall>db_field. map_of d db_field \<noteq> Some (Some [])) \<and>
         map_of d ''ml_pipeline_version'' = Some (Some ''1.0.0'') \<and>
         map_of d ''processing_status'' = Some (Some ''completed'')"
proof -
  have pid: "field_value r ''Project ID'' \<noteq> []" and iid: "field_value r ''Issue ID'' \<noteq> []"
    using assms by (auto simp: prepare_record_for_db_explicit split: if_splits)
  have nulls: "\<forall>(original_field, db_field) \<in> set field_mapping.
           db_field \<notin> {''project_id'', ''issue_id''} \<longrightarrow>
           field_value r original_field = [] \<longrightarrow> map_of d db_field = Some None"
    using assms [symmetric] pid iid unfolding prepare_record_for_db_explicit
    by (simp add: field_mapping_def nullable_empty text_or_null_empty)
  have "list_all (\<lambda>(k, v). v \<noteq> Some []) d"
    using assms [symmetric] pid iid unfolding prepare_record_for_db_explicit
    by (simp add: nullable_nonempty text_or_null_nonempty)
  then have nonempty: "\<forall>db_field. map_of d db_field \<noteq> Some (Some [])"
    by (fastforce simp: list_all_iff dest: map_of_SomeD)
  have meta: "map_of d ''ml_pipeline_version'' = Some (Some ''1.0.0'')"
    "map_of d ''processing_status'' = Some (Some ''completed'')"
    using assms [symmetric] pid iid unfolding prepare_record_for_db_explicit by simp_all
  show ?thesis using nulls nonempty meta by blast
qed

text \<open>
  A record with both ids and a blank \<open>Project Issue class\<close> is accepted, and its
  \<open>project_issue_class\<close> column is \<open>None\<close>.
\<close>

theorem prepare_record_null_coercion_witness:
  "\<not> isl (prepare_record_for_db
      [(''Project ID'', PStr ''P1''), (''Issue ID'', PStr ''I1''),
       (''Project Issue class'', PStr ''  '')]) \<and>
   map_of (projr (prepare_record_for_db
      [(''Project ID'', PStr ''P1''), (''Issue ID'', PStr ''I1''),
       (''Project Issue class'', PStr ''  '')])) ''project_issue_class'' = Some None \<and>
   map_of (projr (prepare_record_for_db
      [(''Project ID'', PStr ''P1''), (''Issue ID'', PStr ''I1''),
       (''Project Issue class'', PStr ''  '')])) ''processing_status'' = Some (Some ''completed'')"
proof -
  let ?r = "[(''Project ID'', PStr ''P1''), (''Issue ID'', PStr ''I1''),
             (''Project Issue class'', PStr ''  '')]"
  have "has_required_fields ?r"
    by (simp add: has_required_fields_def field_value_def dict_get_def strip_def is_space_def)
  then have accepted: "\<not> isl (prepare_record_for_db ?r)"
    by (simp add: prepare_rejects_iff)
  then have ok: "prepare_record_for_db ?r = Inr (projr (prepare_record_for_db ?r))"
    by simp
  have blank: "field_value ?r ''Project Issue class'' = []"
    by (simp add: field_value_def dict_get_def strip_def is_space_def)
  have col: "(''Project Issue class'', ''project_issue_class'') \<in> set field_mapping"
    by (simp add: field_mapping_def)
  from prepare_record_null_coercion [OF ok] col blank accepted show ?thesis
    by fastforce
qed

subsection \<open>What \<open>_insert_batch\<close> returns\<close>

text \<open>
  C3, as the code has it. For a non-empty batch that the database accepts,
  \<open>_insert_batch\<close> returns the number of data tuples it submitted,
  \<open>len(data_tuples)\<close>, whatever row count the database reports: \<open>cursor.rowcount\<close>
  is read into \<open>affected_rows\<close> and only logged.
\<close>

theorem insert_batch_returns_length:
  assumes "records \<noteq> []" and "db sent (map data_tuple records) = Inr affected_rows"
  shows "insert_batch db sent records = (Inr (length records), sent @ [map data_tuple records])"
  using assms by (simp add: insert_batch_def)

text \<open>One record submitted, two rows reported (an upsert that updated): the result is 1.\<close>

theorem insert_batch_returns_length_witness:
  "insert_batch (\<lambda>sent data_tuples. Inr 2) []
     [[(''project_id'', Some ''P1''), (''issue_id'', Some ''I1'')]] =
   (Inr 1, [map data_tuple [[(''project_id'', Some ''P1''), (''issue_id'', Some ''I1'')]]])"
  using insert_batch_returns_length
    [of "[[(''project_id'', Some ''P1''), (''issue_id'', Some ''I1'')]]"
        "\<lambda>sent data_tuples. Inr 2" "[]" 2]
  by simp

text \<open>
  The claim as stated fails there: the database reports 2 affected rows and
  \<open>_insert_batch\<close> returns 1.
\<close>

theorem insert_batch_rowcount_counterexample:
  "fst (insert_batch (\<lambda>sent data_tuples. Inr 2) []
          [[(''project_id'', Some ''P1''), (''issue_id'', Some ''I1'')]]) = Inr 1"
  by (simp add: insert_batch_def)

subsection \<open>A batch that the database refuses\<close>

lemma process_batch_failure:
  assumes "prepared_of batch \<noteq> []"
    and "db (submitted st) (map data_tuple (prepared_of batch)) = Inl msg"
  shows "process_batch db batch st =
     st\<lparr> batch_count := batch_count st + 1,
         total_errors := total_errors st + rejects batch + length batch,
         submitted := submitted st @ [map data_tuple (prepared_of batch)] \<rparr>"
  using assms by (simp add: process_batch_def prepare_batch_eq insert_batch_def Let_def)

lemma process_batch_success:
  assumes "prepared_of batch \<noteq> []"
    and "db (submitted st) (map data_tuple (prepared_of batch)) = Inr n"
  shows "process_batch db batch st =
     st\<lparr> batch_count := batch_count st + 1,
         total_errors := total_errors st + rejects batch,
         total_processed := total_processed st + length (prepared_of batch),
         submitted := submitted st @ [map data_tuple (prepared_of batch)] \<rparr>"
  using assms by (simp add: process_batch_def prepare_batch_eq insert_batch_def Let_def)

lemma process_batch_empty:
  assumes "prepared_of batch = []"
  shows "process_batch db batch st =
     st\<lparr> batch_count := batch_count st + 1,
         total_errors := total_errors st + rejects batch \<rparr>"
  using assms by (simp add: process_batch_def prepare_batch_eq Let_def)

text \<open>
  C2, as the code has it. With a positive batch size \<open>_write_data_to_db\<close> never
  raises: it returns its statistics, having gone through every batch of the input
  (\<open>batch_count\<close> is the number of batches) and having submitted every batch with an
  accepted record exactly once, whatever the database answered to the earlier ones. A
  batch whose database call fails is caught by the \<open>except\<close> of the loop body: the
  length of the whole batch is added to \<open>total_errors\<close>, nothing is added to
  \<open>total_processed\<close>, and the batch is not submitted again.
\<close>

theorem write_data_to_db_chunk_failure:
  assumes "0 < batch_size"
  shows "(\<exists>st. write_data_to_db db batch_size records = Inr st \<and>
            batch_count st = length (chunks (nat batch_size) records) \<and>
            submitted st = map (map data_tuple)
              (filter (\<lambda>b. b \<noteq> []) (map prepared_of (chunks (nat batch_size) records)))) \<and>
         (\<forall>batch st msg.
            prepared_of batch \<noteq> [] \<and>
            db (submitted st) (map data_tuple (prepared_of batch)) = Inl msg \<longrightarrow>
            process_batch db batch st =
              st\<lparr> batch_count := batch_count st + 1,
                  total_errors := total_errors st + rejects batch + length batch,
                  submitted := submitted st @ [map data_tuple (prepared_of batch)] \<rparr>)"
  using write_data_to_db_closed [OF assms, of db records] process_batch_failure [of _ db]
  by blast

text \<open>Records used in the examples: two with both ids, one with a blank issue id.\<close>

lemma example_records:
  "has_required_fields [(''Project ID'', PStr ''P1''), (''Issue ID'', PStr ''I1'')]"
  "has_required_fields [(''Project ID'', PStr ''P1''), (''Issue ID'', PStr ''I2'')]"
  "\<not> has_required_fields [(''Project ID'', PStr ''P1''), (''Issue ID'', PStr '' '')]"
  by (simp_all add: has_required_fields_def field_value_def dict_get_def strip_def is_space_def)

lemma example_prepared:
  "prepared_of [[(''Project ID'', PStr ''P1''), (''Issue ID'', PStr ''I1'')]] \<noteq> []"
  "prepared_of [[(''Project ID'', PStr ''P1''), (''Issue ID'', PStr ''I2'')]] \<noteq> []"
  "length (prepared_of [[(''Project ID'', PStr ''P1''), (''Issue ID'', PStr ''I1'')]]) = 1"
  "length (prepared_of [[(''Project ID'', PStr ''P1''), (''Issue ID'', PStr ''I2'')]]) = 1"
  "rejects [[(''Project ID'', PStr ''P1''), (''Issue ID'', PStr ''I1'')]] = 0"
  "rejects [[(''Project ID'', PStr ''P1''), (''Issue ID'', PStr ''I2'')]] = 0"
proof -
  have a: "length (prepared_of [[(''Project ID'', PStr ''P1''), (''Issue ID'', PStr ''I1'')]]) = 1" "length (prepared_of [[(''Project ID'', PStr ''P1''), (''Issue ID'', PStr ''I2'')]]) = 1"
    by (simp_all add: length_prepared_of_filter example_records)
  show "length (prepared_of [[(''Project ID'', PStr ''P1''), (''Issue ID'', PStr ''I1'')]]) = 1" "length (prepared_of [[(''Project ID'', PStr ''P1''), (''Issue ID'', PStr ''I2'')]]) = 1" by (rule a)+
  show "prepared_of [[(''Project ID'', PStr ''P1''), (''Issue ID'', PStr ''I1'')]] \<noteq> []" using a(1) by (metis length_0_conv zero_neq_one)
  show "prepared_of [[(''Project ID'', PStr ''P1''), (''Issue ID'', PStr ''I2'')]] \<noteq> []" using a(2) by (metis length_0_conv zero_neq_one)
  show "rejects [[(''Project ID'', PStr ''P1''), (''Issue ID'', PStr ''I1'')]] = 0" "rejects [[(''Project ID'', PStr ''P1''), (''Issue ID'', PStr ''I2'')]] = 0"
    by (simp_all add: rejects_filter example_records)
qed

text \<open>
  The claim as stated fails on two records written in batches of one, when the database
  refuses the first statement and accepts the second: the call returns normally, the
  second batch is submitted after the failure and counted as processed.
\<close>

theorem write_data_to_db_continues_counterexample:
  "write_data_to_db (\<lambda>sent data_tuples. if sent = [] then Inl ''Deadlock found'' else Inr 1) 1
     [[(''Project ID'', PStr ''P1''), (''Issue ID'', PStr ''I1'')],
      [(''Project ID'', PStr ''P1''), (''Issue ID'', PStr ''I2'')]] =
   Inr \<lparr> total_records = 2, total_processed = 1, total_errors = 1, batch_count = 2,
         submitted =
           [map data_tuple (prepared_of [[(''Project ID'', PStr ''P1''), (''Issue ID'', PStr ''I1'')]]),
            map data_tuple (prepared_of [[(''Project ID'', PStr ''P1''), (''Issue ID'', PStr ''I2'')]])] \<rparr>"
  by (simp add: write_data_to_db_def write_loop.simps process_batch_def prepare_batch_eq
      insert_batch_def Let_def example_prepared)

text \<open>
  The same run: two batches are counted, and the refused first batch adds its length to
  \<open>total_errors\<close>.
\<close>

theorem write_data_to_db_chunk_failure_witness:
  "(\<exists>st. write_data_to_db (\<lambda>sent data_tuples. if sent = [] then Inl ''Deadlock found'' else Inr 1) 1
           [[(''Project ID'', PStr ''P1''), (''Issue ID'', PStr ''I1'')],
            [(''Project ID'', PStr ''P1''), (''Issue ID'', PStr ''I2'')]] = Inr st \<and>
         batch_count st = 2) \<and>
   process_batch (\<lambda>sent data_tuples. if sent = [] then Inl ''Deadlock found'' else Inr 1)
     [[(''Project ID'', PStr ''P1''), (''Issue ID'', PStr ''I1'')]]
     \<lparr> total_records = 2, total_processed = 0, total_errors = 0, batch_count = 0, submitted = [] \<rparr> =
   \<lparr> total_records = 2, total_processed = 0, total_errors = 1, batch_count = 1,
     submitted = [map data_tuple (prepared_of [[(''Project ID'', PStr ''P1''), (''Issue ID'', PStr ''I1'')]])] \<rparr>"
proof -
  let ?db = "(\<lambda>sent data_tuples. if sent = [] then Inl ''Deadlock found'' else Inr 1)"
  let ?r1 = "[(''Project ID'', PStr ''P1''), (''Issue ID'', PStr ''I1'')]"
  let ?r2 = "[(''Project ID'', PStr ''P1''), (''Issue ID'', PStr ''I2'')]"
  let ?st = "\<lparr> total_records = 2, total_processed = 0, total_errors = 0, batch_count = 0, submitted = [] \<rparr>"
  have pos: "0 < (1::int)" by simp
  note T = write_data_to_db_chunk_failure [OF pos, of ?db "[?r1, ?r2]"]
  have n: "length (chunks (nat 1) [?r1, ?r2]) = 2"
    by (simp add: length_chunks)
  from T n have A: "\<exists>st. write_data_to_db ?db 1 [?r1, ?r2] = Inr st \<and> batch_count st = 2"
    by metis
  from conjunct2 [OF T, rule_format, of "[?r1]" ?st "''Deadlock found''"]
  have B: "process_batch ?db [?r1] ?st =
      \<lparr> total_records = 2, total_processed = 0, total_errors = 1, batch_count = 1,
        submitted = [map data_tuple (prepared_of [?r1])] \<rparr>"
    by (simp add: example_prepared)
  from A B show ?thesis by blast
qed

subsection \<open>Records without their required fields\<close>

lemma prepare_rejects_message:
  "\<not> has_required_fields r \<Longrightarrow> \<exists>msg. prepare_record_for_db r = Inl (DatabaseWriterError msg)"
  by (auto simp: prepare_record_for_db_explicit has_required_fields_def)

text \<open>
  C4. A record whose \<open>Project ID\<close> or \<open>Issue ID\<close> is empty after stripping makes
  \<open>_prepare_record_for_db\<close> raise \<open>DatabaseWriterError\<close>. The inner loop of a batch
  keeps the prepared records of exactly the other records, in order, and adds one to the
  error counter for each rejected one. Over a whole run with a positive batch size the
  data tuples submitted to the database are those of the records with their required
  fields, each once and in order, so a rejected record is never submitted and the rest
  of its batch is; and \<open>total_errors\<close> counts at least the rejected records.
\<close>

theorem required_field_rejection:
  assumes "0 < batch_size"
  shows "(\<not> has_required_fields r \<longrightarrow>
            (\<exists>msg. prepare_record_for_db r = Inl (DatabaseWriterError msg))) \<and>
         prepare_batch batch db_batch errors =
           (db_batch @ prepared_of (filter has_required_fields batch),
            errors + length (filter (\<lambda>r. \<not> has_required_fields r) batch)) \<and>
         (\<exists>st. write_data_to_db db batch_size records = Inr st \<and>
            concat (submitted st) =
              map data_tuple (prepared_of (filter has_required_fields records)) \<and>
            length (concat (submitted st)) = length (filter has_required_fields records) \<and>
            length (filter (\<lambda>r. \<not> has_required_fields r) records) \<le> total_errors st)"
proof -
  have pos: "0 < nat batch_size" using assms by simp
  from write_data_to_db_closed [OF assms, of db records] obtain st where
    st: "write_data_to_db db batch_size records = Inr st"
      "submitted st = map (map data_tuple)
         (filter (\<lambda>b. b \<noteq> []) (map prepared_of (chunks (nat batch_size) records)))"
      "rejects records \<le> total_errors st"
    by blast
  have c: "concat (submitted st) = map data_tuple (prepared_of records)"
    using st(2) concat_submitted [OF pos, of records] by simp
  then have c1: "concat (submitted st) =
      map data_tuple (prepared_of (filter has_required_fields records))"
    using prepared_of_filter [of records] by simp
  have c2: "length (concat (submitted st)) = length (filter has_required_fields records)"
    using c by (simp add: length_prepared_of_filter)
  have c3: "length (filter (\<lambda>r. \<not> has_required_fields r) records) \<le> total_errors st"
    using st(3) by (simp add: rejects_filter)
  have b: "prepare_batch batch db_batch errors =
      (db_batch @ prepared_of (filter has_required_fields batch),
       errors + length (filter (\<lambda>r. \<not> has_required_fields r) batch))"
    using prepared_of_filter [of batch] by (simp add: prepare_batch_eq rejects_filter)
  show ?thesis using prepare_rejects_message [of r] b st(1) c1 c2 c3 by blast
qed

text \<open>
  Three records in batches of two, the second with a blank issue id: it is rejected,
  the other two are submitted, and the error counter is at least 1.
\<close>

theorem required_field_rejection_witness:
  "(\<exists>msg. prepare_record_for_db [(''Project ID'', PStr ''P1''), (''Issue ID'', PStr '' '')] =
      Inl (DatabaseWriterError msg)) \<and>
   (\<exists>st. write_data_to_db (\<lambda>sent data_tuples. Inr (length data_tuples)) 2
      [[(''Project ID'', PStr ''P1''), (''Issue ID'', PStr ''I1'')],
       [(''Project ID'', PStr ''P1''), (''Issue ID'', PStr '' '')],
       [(''Project ID'', PStr ''P1''), (''Issue ID'', PStr ''I2'')]] = Inr st \<and>
      concat (submitted st) =
        map data_tuple (prepared_of
          [[(''Project ID'', PStr ''P1''), (''Issue ID'', PStr ''I1'')],
           [(''Project ID'', PStr ''P1''), (''Issue ID'', PStr ''I2'')]]) \<and>
      1 \<le> total_errors st)"
  using required_field_rejection
    [of 2 "[(''Project ID'', PStr ''P1''), (''Issue ID'', PStr '' '')]"
       "[]" "[]" 0 "\<lambda>sent data_tuples. Inr (length data_tuples)"
       "[[(''Project ID'', PStr ''P1''), (''Issue ID'', PStr ''I1'')],
         [(''Project ID'', PStr ''P1''), (''Issue ID'', PStr '' '')],
         [(''Project ID'', PStr ''P1''), (''Issue ID'', PStr ''I2'')]]"]
  by (simp add: example_records) blast

subsection \<open>How many batches are submitted\<close>

lemma prepared_of_empty_iff: "prepared_of c = [] \<longleftrightarrow> filter has_required_fields c = []"
  using length_prepared_of_filter [of c] by (metis length_0_conv)

lemma submitted_count:
  "length (filter (\<lambda>b. b \<noteq> []) (map prepared_of cs)) =
     length (filter (\<lambda>c. filter has_required_fields c \<noteq> []) cs)"
  by (induction cs) (simp_all add: prepared_of_empty_iff)

lemma valid_le_nonempty_chunks:
  assumes "\<forall>c \<in> set cs. length c \<le> n"
  shows "length (filter P (concat cs)) \<le> n * length (filter (\<lambda>c. filter P c \<noteq> []) cs)"
  using assms
proof (induction cs)
  case Nil
  show ?case by simp
next
  case (Cons c cs)
  have "length (filter P c) \<le> length c" by simp
  also have "\<dots> \<le> n" using Cons.prems by simp
  finally have c: "length (filter P c) \<le> n" .
  have IH: "length (filter P (concat cs)) \<le> n * length (filter (\<lambda>c. filter P c \<noteq> []) cs)"
    using Cons by simp
  show ?case
  proof (cases "filter P c = []")
    case True
    then show ?thesis using IH by simp
  next
    case False
    then show ?thesis using IH c by simp
  qed
qed

lemma ceil_le:
  fixes m n k :: nat
  assumes "0 < n" "m \<le> n * k"
  shows "(m + n - 1) div n \<le> k"
proof -
  have "m + n - 1 < n * k + n" using assms by arith
  then have "m + n - 1 < n * Suc k" by simp
  then have "(m + n - 1) div n < Suc k"
    using assms(1) by (simp add: less_mult_imp_div_less mult.commute)
  then show ?thesis by simp
qed

lemma all_valid_chunks:
  assumes "list_all P xs"
  shows "filter (\<lambda>c. filter P c \<noteq> []) (chunks n xs) = chunks n xs"
proof -
  have "filter P c \<noteq> []" if "c \<in> set (chunks n xs)" for c
  proof -
    from that have ne: "c \<noteq> []" by (simp add: chunk_bounds)
    have "set c \<subseteq> set xs"
    proof (cases "0 < n")
      case True
      from concat_chunks [OF True, of xs] that show ?thesis
        by (metis Sup_upper image_eqI set_concat set_map UN_upper)
    next
      case False
      then show ?thesis using that by (simp add: chunks.simps)
    qed
    then have "filter P c = c" using assms by (auto simp: list_all_iff filter_id_conv)
    then show ?thesis using ne by simp
  qed
  then show ?thesis by (simp add: filter_id_conv)
qed

text \<open>
  C5, as the code has it. The input list of \<open>N\<close> records is cut into batches of
  \<open>B\<close> before field preparation, and one persistence call is issued for every batch
  that keeps at least one accepted record. With \<open>M\<close> accepted records the number of
  calls lies between \<open>ceil(M/B)\<close> and \<open>ceil(N/B)\<close>, and is \<open>ceil(M/B)\<close> when no
  record is rejected. The business keys passed to the database are exactly the keys, as
  prepared, of the records with their required fields.
\<close>

theorem write_data_to_db_chunking:
  assumes "0 < batch_size"
  shows "\<exists>st. write_data_to_db db batch_size records = Inr st \<and>
     length (submitted st) =
       length (filter (\<lambda>c. filter has_required_fields c \<noteq> [])
                 (chunks (nat batch_size) records)) \<and>
     (length (filter has_required_fields records) + nat batch_size - 1) div nat batch_size
       \<le> length (submitted st) \<and>
     length (submitted st) \<le> (length records + nat batch_size - 1) div nat batch_size \<and>
     (list_all has_required_fields records \<longrightarrow>
        length (submitted st) = (length records + nat batch_size - 1) div nat batch_size) \<and>
     set (map tuple_key (concat (submitted st))) =
       record_key ` {r \<in> set records. has_required_fields r}"
proof -
  let ?n = "nat batch_size"
  let ?cs = "chunks ?n records"
  let ?k = "length (filter (\<lambda>c. filter has_required_fields c \<noteq> []) ?cs)"
  have pos: "0 < ?n" using assms by simp
  from write_data_to_db_closed [OF assms, of db records] obtain st where
    st: "write_data_to_db db batch_size records = Inr st"
      "submitted st = map (map data_tuple) (filter (\<lambda>b. b \<noteq> []) (map prepared_of ?cs))"
    by blast
  have len: "length (submitted st) = ?k"
    unfolding st(2) length_map by (rule submitted_count)
  have "length (filter has_required_fields (concat ?cs)) \<le> ?n * ?k"
    by (rule valid_le_nonempty_chunks) (simp add: chunk_bounds)
  then have "length (filter has_required_fields records) \<le> ?n * ?k"
    using pos by (simp add: concat_chunks)
  then have lower: "(length (filter has_required_fields records) + ?n - 1) div ?n \<le> ?k"
    using pos by (rule ceil_le [rotated])
  have "?k \<le> length ?cs" by (rule length_filter_le)
  then have upper: "?k \<le> (length records + ?n - 1) div ?n"
    using pos by (simp add: length_chunks)
  have full: "?k = (length records + ?n - 1) div ?n" if "list_all has_required_fields records"
    using that pos by (simp add: all_valid_chunks length_chunks)
  have "concat (submitted st) = map data_tuple (prepared_of records)"
    using st(2) concat_submitted [OF pos, of records] by simp
  then have "map tuple_key (concat (submitted st)) =
      map record_key (filter has_required_fields records)"
    using keys_prepared_of [of records] by (simp add: comp_def)
  then have keys: "set (map tuple_key (concat (submitted st))) =
      record_key ` {r \<in> set records. has_required_fields r}"
    by (simp only: set_map set_filter)
  show ?thesis using st(1) len lower upper full keys by (intro exI [of _ st]) simp
qed

text \<open>Three accepted records in batches of two: two calls.\<close>

theorem write_data_to_db_chunking_witness:
  "\<exists>st. write_data_to_db (\<lambda>sent data_tuples. Inr (length data_tuples)) 2
      [[(''Project ID'', PStr ''P1''), (''Issue ID'', PStr ''I1'')],
       [(''Project ID'', PStr ''P1''), (''Issue ID'', PStr ''I2'')],
       [(''Project ID'', PStr ''P1''), (''Issue ID'', PStr ''I1'')]] = Inr st \<and>
     length (submitted st) = 2"
  using write_data_to_db_chunking
    [of 2 "(\<lambda>sent data_tuples. Inr (length data_tuples))"
       "[[(''Project ID'', PStr ''P1''), (''Issue ID'', PStr ''I1'')],
         [(''Project ID'', PStr ''P1''), (''Issue ID'', PStr ''I2'')],
         [(''Project ID'', PStr ''P1''), (''Issue ID'', PStr ''I1'')]]"]
  by (auto simp: example_records)

text \<open>
  The claim as stated fails on four records in batches of two when the second and the
  fourth are rejected: two records survive, \<open>ceil(2/2) = 1\<close>, and two calls are
  issued, one for each input batch.
\<close>

theorem write_data_to_db_chunk_count_counterexample:
  "length (prepared_of
      [[(''Project ID'', PStr ''P1''), (''Issue ID'', PStr ''I1'')],
       [(''Project ID'', PStr ''P1''), (''Issue ID'', PStr '' '')],
       [(''Project ID'', PStr ''P1''), (''Issue ID'', PStr ''I2'')],
       [(''Project ID'', PStr ''P1''), (''Issue ID'', PStr '' '')]]) = 2 \<and>
   (2 + 2 - 1) div 2 = (1::nat) \<and>
   (case write_data_to_db (\<lambda>sent data_tuples. Inr (length data_tuples)) 2
      [[(''Project ID'', PStr ''P1''), (''Issue ID'', PStr ''I1'')],
       [(''Project ID'', PStr ''P1''), (''Issue ID'', PStr '' '')],
       [(''Project ID'', PStr ''P1''), (''Issue ID'', PStr ''I2'')],
       [(''Project ID'', PStr ''P1''), (''Issue ID'', PStr '' '')]]
    of Inr st \<Rightarrow> length (submitted st) | Inl e \<Rightarrow> 0) = 2"
proof -
  let ?recs = "[[(''Project ID'', PStr ''P1''), (''Issue ID'', PStr ''I1'')],
       [(''Project ID'', PStr ''P1''), (''Issue ID'', PStr '' '')],
       [(''Project ID'', PStr ''P1''), (''Issue ID'', PStr ''I2'')],
       [(''Project ID'', PStr ''P1''), (''Issue ID'', PStr '' '')]]"
  have pos: "0 < (2::int)" by simp
  from write_data_to_db_closed [OF pos, of "(\<lambda>sent data_tuples. Inr (length data_tuples))" ?recs]
  obtain st where st: "write_data_to_db (\<lambda>sent data_tuples. Inr (length data_tuples)) 2 ?recs = Inr st"
    "submitted st = map (map data_tuple)
       (filter (\<lambda>b. b \<noteq> []) (map prepared_of (chunks (nat 2) ?recs)))"
    by blast
  have "length (submitted st) =
      length (filter (\<lambda>c. filter has_required_fields c \<noteq> []) (chunks (nat 2) ?recs))"
    unfolding st(2) length_map by (rule submitted_count)
  also have "\<dots> = 2"
    by (simp add: chunks_step example_records)
  finally have calls: "length (submitted st) = 2" .
  have m: "length (prepared_of ?recs) = 2"
    by (simp add: length_prepared_of_filter example_records)
  show ?thesis using st(1) calls m by simp
qed

section \<open>Properties of the connection manager\<close>

text \<open>
  C8. The effective connection parameters of \<open>MySQLConnectionManager\<close> never hold
  the key \<open>sslmode\<close>; on every other key they hold the caller's value when the
  caller supplies one and the default otherwise; they are the defaults when the caller
  supplies no \<open>connection_params\<close>. The defaults are \<open>charset = utf8mb4\<close>,
  \<open>connect_timeout = 30\<close>, \<open>autocommit = True\<close>, \<open>use_unicode = True\<close> and the
  strict \<open>sql_mode\<close>, and nothing else.
\<close>

theorem connection_params_merge:
  "connection_params (connection_manager_init cfg) ''sslmode'' = None \<and>
   (\<forall>p k v. cfg_connection_params cfg = Some p \<and> k \<noteq> ''sslmode'' \<and> p k = Some v \<longrightarrow>
      connection_params (connection_manager_init cfg) k = Some v) \<and>
   (\<forall>p k. cfg_connection_params cfg = Some p \<and> k \<noteq> ''sslmode'' \<and> p k = None \<longrightarrow>
      connection_params (connection_manager_init cfg) k = default_params k) \<and>
   (cfg_connection_params cfg = None \<longrightarrow>
      connection_params (connection_manager_init cfg) = default_params) \<and>
   default_params ''charset'' = Some (PStr ''utf8mb4'') \<and>
   default_params ''connect_timeout'' = Some (PInt 30) \<and>
   default_params ''autocommit'' = Some (PBool True) \<and>
   default_params ''use_unicode'' = Some (PBool True) \<and>
   default_params ''sql_mode'' =
     Some (PStr ''STRICT_TRANS_TABLES,NO_ZERO_DATE,NO_ZERO_IN_DATE,ERROR_FOR_DIVISION_BY_ZERO'') \<and>
   dom default_params =
     {''charset'', ''connect_timeout'', ''autocommit'', ''use_unicode'', ''sql_mode''}"
proof -
  have d: "default_params ''charset'' = Some (PStr ''utf8mb4'')"
    "default_params ''connect_timeout'' = Some (PInt 30)"
    "default_params ''autocommit'' = Some (PBool True)"
    "default_params ''use_unicode'' = Some (PBool True)"
    "default_params ''sql_mode'' =
       Some (PStr ''STRICT_TRANS_TABLES,NO_ZERO_DATE,NO_ZERO_IN_DATE,ERROR_FOR_DIVISION_BY_ZERO'')"
    "default_params ''sslmode'' = None"
    by (simp_all add: default_params_def)
  have dm: "dom default_params =
     {''charset'', ''connect_timeout'', ''autocommit'', ''use_unicode'', ''sql_mode''}"
    unfolding default_params_def by (simp only: dom_map_of_conv_image_fst) auto
  have s: "connection_params (connection_manager_init cfg) ''sslmode'' = None"
    by (simp add: connection_manager_init_def Let_def map_add_def d)
  have o: "connection_params (connection_manager_init cfg) k = Some v"
    if "cfg_connection_params cfg = Some p" "k \<noteq> ''sslmode''" "p k = Some v" for p k v
    using that by (simp add: connection_manager_init_def Let_def map_add_def)
  have k: "connection_params (connection_manager_init cfg) k = default_params k"
    if "cfg_connection_params cfg = Some p" "k \<noteq> ''sslmode''" "p k = None" for p k
    using that by (simp add: connection_manager_init_def Let_def map_add_def)
  have n: "connection_params (connection_manager_init cfg) = default_params"
    if "cfg_connection_params cfg = None"
    using that by (simp add: connection_manager_init_def Let_def map_add_def fun_eq_iff d)
  show ?thesis
  proof (intro conjI allI impI)
    fix p k v
    assume "cfg_connection_params cfg = Some p \<and> k \<noteq> ''sslmode'' \<and> p k = Some v"
    then show "connection_params (connection_manager_init cfg) k = Some v"
      by (elim conjE) (rule o)
  next
    fix p k
    assume "cfg_connection_params cfg = Some p \<and> k \<noteq> ''sslmode'' \<and> p k = None"
    then show "connection_params (connection_manager_init cfg) k = default_params k"
      by (elim conjE) (rule k)
  qed (fact s n d dm)+
qed

text \<open>
  A caller that asks for \<open>sslmode = require\<close> and \<open>charset = latin1\<close>: the first
  is dropped, the second overrides the default, and the timeout keeps its default.
\<close>

theorem connection_params_merge_witness:
  "connection_params
     (connection_manager_init
        \<lparr> cfg_host = Some (PStr ''db.internal''), cfg_port = None,
          cfg_database = Some (PStr ''pmg''), cfg_username = None, cfg_password = None,
          cfg_connection_params =
            Some [''sslmode'' \<mapsto> PStr ''require'', ''charset'' \<mapsto> PStr ''latin1''] \<rparr>)
     ''sslmode'' = None \<and>
   connection_params
     (connection_manager_init
        \<lparr> cfg_host = Some (PStr ''db.internal''), cfg_port = None,
          cfg_database = Some (PStr ''pmg''), cfg_username = None, cfg_password = None,
          cfg_connection_params =
            Some [''sslmode'' \<mapsto> PStr ''require'', ''charset'' \<mapsto> PStr ''latin1''] \<rparr>)
     ''charset'' = Some (PStr ''latin1'') \<and>
   connection_params
     (connection_manager_init
        \<lparr> cfg_host = Some (PStr ''db.internal''), cfg_port = None,
          cfg_database = Some (PStr ''pmg''), cfg_username = None, cfg_password = None,
          cfg_connection_params =
            Some [''sslmode'' \<mapsto> PStr ''require'', ''charset'' \<mapsto> PStr ''latin1''] \<rparr>)
     ''connect_timeout'' = Some (PInt 30)"
proof -
  let ?p = "[''sslmode'' \<mapsto> PStr ''require'', ''charset'' \<mapsto> PStr ''latin1'']"
  let ?cfg = "\<lparr> cfg_host = Some (PStr ''db.internal''), cfg_port = None,
          cfg_database = Some (PStr ''pmg''), cfg_username = None, cfg_password = None,
          cfg_connection_params = Some ?p \<rparr>"
  note T = connection_params_merge [of ?cfg]
  from T have a: "connection_params (connection_manager_init ?cfg) ''sslmode'' = None"
    by (rule conjunct1)
  from T have o: "\<forall>p k v. cfg_connection_params ?cfg = Some p \<and> k \<noteq> ''sslmode'' \<and> p k = Some v \<longrightarrow>
      connection_params (connection_manager_init ?cfg) k = Some v"
    by (elim conjE)
  from T have k: "\<forall>p k. cfg_connection_params ?cfg = Some p \<and> k \<noteq> ''sslmode'' \<and> p k = None \<longrightarrow>
      connection_params (connection_manager_init ?cfg) k = default_params k"
    by (elim conjE)
  from T have dt: "default_params ''connect_timeout'' = Some (PInt 30)"
    by (elim conjE)
  from o [rule_format, of ?p "''charset''" "PStr ''latin1''"]
  have b: "connection_params (connection_manager_init ?cfg) ''charset'' = Some (PStr ''latin1'')"
    by simp
  from k [rule_format, of ?p "''connect_timeout''"] dt
  have c: "connection_params (connection_manager_init ?cfg) ''connect_timeout'' = Some (PInt 30)"
    by simp
  from a b c show ?thesis by (intro conjI)
qed

section \<open>Properties of the endpoint discovery\<close>











text \<open>
  Two more runs. A MySQL instance that is being created has no \<open>Endpoint\<close> yet: the
  subscript raises and discovery returns no candidate, not even the available one. And
  two equally ranked candidates of which one reports no storage size make the sort
  raise.
\<close>

lemma discovery_missing_endpoint_example:
  "discover_mysql_instances
      \<lparr> rds_client = True, ec2_client = True,
        describe_db_instances = Some
          [\<lparr> DBInstanceIdentifier = Some ''public'', Engine = Some ''mysql'',
            Endpoint = Some (Some ''public.rds.example'', Some 3306),
            DBInstanceStatus = Some ''available'', AvailabilityZone = Some ''us-east-1a'',
            VpcSecurityGroups = Some [Some ''sg-1''], DBSubnetGroupName = None,
            PubliclyAccessible = Some True, StorageEncrypted = None,
            MasterUsername = None, AllocatedStorage = Some 100,
            DBInstanceClass = None, InstanceCreateTime = None \<rparr>,
           \<lparr> DBInstanceIdentifier = Some ''new'', Engine = Some ''mysql'',
            Endpoint = None,
            DBInstanceStatus = Some ''creating'', AvailabilityZone = Some ''us-east-1a'',
            VpcSecurityGroups = Some [Some ''sg-1''], DBSubnetGroupName = None,
            PubliclyAccessible = Some True, StorageEncrypted = None,
            MasterUsername = None, AllocatedStorage = Some 100,
            DBInstanceClass = None, InstanceCreateTime = None \<rparr>],
        instance_id = Some ''i-0abc'', ec2_availability_zone = Some ''us-east-1b'' \<rparr> = []"
  by (simp add: discover_mysql_instances_def instance_info_of_def is_instance_accessible_def
      py_lower_def lower_char_def)

lemma recommended_without_storage_example:
  "get_recommended_instance
      \<lparr> rds_client = True, ec2_client = True,
        describe_db_instances = Some
          [\<lparr> DBInstanceIdentifier = Some ''sized'', Engine = Some ''mysql'',
            Endpoint = Some (Some ''sized.rds.example'', Some 3306),
            DBInstanceStatus = Some ''available'', AvailabilityZone = Some ''us-east-1a'',
            VpcSecurityGroups = Some [Some ''sg-1''], DBSubnetGroupName = None,
            PubliclyAccessible = Some True, StorageEncrypted = None,
            MasterUsername = None, AllocatedStorage = Some 100,
            DBInstanceClass = None, InstanceCreateTime = None \<rparr>,
           \<lparr> DBInstanceIdentifier = Some ''unsized'', Engine = Some ''mysql'',
            Endpoint = Some (Some ''unsized.rds.example'', Some 3306),
            DBInstanceStatus = Some ''available'', AvailabilityZone = Some ''us-east-1a'',
            VpcSecurityGroups = Some [Some ''sg-1''], DBSubnetGroupName = None,
            PubliclyAccessible = Some True, StorageEncrypted = None,
            MasterUsername = None, AllocatedStorage = None,
            DBInstanceClass = None, InstanceCreateTime = None \<rparr>],
        instance_id = Some ''i-0abc'', ec2_availability_zone = Some ''us-east-1b'' \<rparr> = Inl TypeError"
  by (simp add: get_recommended_instance_def sort_reverse_def discover_mysql_instances_def
      instance_info_of_def is_instance_accessible_def has_instance_id_def py_lower_def
      lower_char_def sort_key_def is_same_availability_zone_def storage_comparable_def)

end
